theory Spec2Isabelle
  imports Main "HOL-Library.AList"
begin

section \<open>JavaScript values\<close>

text \<open>
  The SDK is TypeScript; at run time its values are JavaScript values. Bodies received
  from the network are cast (\<^verbatim>\<open>as any\<close>, \<^verbatim>\<open>as T\<close>) without any check, so the
  model keeps them untyped. Numbers are the integer-valued ones (all amounts and status
  codes of the protocol are integers) together with the two infinities that
  \<^verbatim>\<open>Number(bigint)\<close> can produce. An object is its list of own properties.
\<close>

datatype jsval =
    JUndefined
  | JNull
  | JBool bool
  | JNum int
  | JInfinity
  | JNegInfinity
  | JStr string
  | JArr "jsval list"
  | JObj "(string \<times> jsval) list"

text \<open>Property read \<^verbatim>\<open>v.k\<close>: a TypeError (\<open>None\<close>) on \<^verbatim>\<open>null\<close> and \<^verbatim>\<open>undefined\<close>,
  \<^verbatim>\<open>undefined\<close> for a property that is not there. The keys read by the SDK are never
  built-in properties of strings, numbers or arrays.\<close>

fun get_prop :: "jsval \<Rightarrow> string \<Rightarrow> jsval option" where
  "get_prop JUndefined k = None"
| "get_prop JNull k = None"
| "get_prop (JObj fs) k = (case map_of fs k of Some v \<Rightarrow> Some v | None \<Rightarrow> Some JUndefined)"
| "get_prop v k = Some JUndefined"

text \<open>The same read where the receiver is already known to be neither \<^verbatim>\<open>null\<close> nor
  \<^verbatim>\<open>undefined\<close> (an earlier read of it went through).\<close>

definition read_prop :: "jsval \<Rightarrow> string \<Rightarrow> jsval" where
  "read_prop v k = (case get_prop v k of Some x \<Rightarrow> x | None \<Rightarrow> JUndefined)"

text \<open>Truthiness, as tested by \<^verbatim>\<open>if (x)\<close> and \<^verbatim>\<open>!x\<close>.\<close>

fun truthy :: "jsval \<Rightarrow> bool" where
  "truthy JUndefined = False"
| "truthy JNull = False"
| "truthy (JBool b) = b"
| "truthy (JNum n) = (n \<noteq> 0)"
| "truthy (JStr s) = (s \<noteq> [])"
| "truthy v = True"

text \<open>The nullish coalescing operator \<^verbatim>\<open>a ?? b\<close>.\<close>

fun nullish :: "jsval \<Rightarrow> bool" where
  "nullish JUndefined = True"
| "nullish JNull = True"
| "nullish v = False"

definition coalesce :: "jsval \<Rightarrow> jsval \<Rightarrow> jsval" where
  "coalesce a b = (if nullish a then b else a)"

text \<open>\<^verbatim>\<open>Object.keys(v).length\<close>.\<close>

fun object_keys_length :: "jsval \<Rightarrow> nat" where
  "object_keys_length (JObj fs) = length fs"
| "object_keys_length (JArr xs) = length xs"
| "object_keys_length (JStr s) = length s"
| "object_keys_length v = 0"

text \<open>\<^verbatim>\<open>String.prototype.toLowerCase\<close> on the ASCII letters; every other byte is kept.\<close>

definition lower_char :: "char \<Rightarrow> char" where
  "lower_char c =
     (let n = (of_char c :: nat) in if 65 \<le> n \<and> n \<le> 90 then char_of (n + 32) else c)"

definition toLowerCase :: "string \<Rightarrow> string" where
  "toLowerCase s = map lower_char s"

subsection \<open>\<^verbatim>\<open>String(v)\<close>\<close>

text \<open>Decimal digits of an integer, as \<^verbatim>\<open>String\<close> prints the integers below \<open>10^21\<close>
  (larger ones print with an exponent; none occurs here).\<close>

definition digit_char :: "nat \<Rightarrow> char" where
  "digit_char d = ''0123456789'' ! d"

fun decimal :: "nat \<Rightarrow> string" where
  "decimal n = (if 10 \<le> n then decimal (n div 10) @ [digit_char (n mod 10)] else [digit_char n])"

declare decimal.simps [simp del]

definition string_of_int :: "int \<Rightarrow> string" where
  "string_of_int i = (if i < 0 then CHR ''-'' # decimal (nat (- i)) else decimal (nat i))"

fun join_comma :: "string list \<Rightarrow> string" where
  "join_comma [] = []"
| "join_comma [x] = x"
| "join_comma (x # y # ys) = x @ '','' @ join_comma (y # ys)"

text \<open>\<^verbatim>\<open>String(v)\<close>, the conversion that the \<^verbatim>\<open>Error\<close> constructor, \<^verbatim>\<open>Headers.set\<close> and
  \<^verbatim>\<open>TextEncoder.encode\<close> apply to a value that is not a string.\<close>

fun js_String :: "jsval \<Rightarrow> string" where
  "js_String JUndefined = ''undefined''"
| "js_String JNull = ''null''"
| "js_String (JBool b) = (if b then ''true'' else ''false'')"
| "js_String (JNum n) = string_of_int n"
| "js_String JInfinity = ''Infinity''"
| "js_String JNegInfinity = ''-Infinity''"
| "js_String (JStr s) = s"
| "js_String (JArr xs) = join_comma (map (\<lambda>x. if nullish x then [] else js_String x) xs)"
| "js_String (JObj fs) = ''[object Object]''"

subsection \<open>\<^verbatim>\<open>Number(bigint)\<close>\<close>

text \<open>
  \<^verbatim>\<open>Number(x)\<close> of a bigint is the IEEE 754 double nearest to \<open>x\<close>, ties to the even
  significand, and an infinity from \<open>2^1024 - 2^970\<close> on. On integers this is integer
  arithmetic: keep the 53 leading bits and round the rest away.
\<close>

function bits :: "int \<Rightarrow> nat" where
  "bits n = (if n \<le> 0 then 0 else Suc (bits (n div 2)))"
  by pat_completeness auto
termination
  by (relation "measure nat") auto

declare bits.simps [simp del]

definition round53 :: "int \<Rightarrow> int" where
  "round53 n =
     (let e = bits n - 53;
          q = n div 2 ^ e;
          r = n mod 2 ^ e;
          up = (2 * r > 2 ^ e \<or> (2 * r = 2 ^ e \<and> odd q))
      in (if up then q + 1 else q) * 2 ^ e)"

definition Number_bigint :: "int \<Rightarrow> jsval" where
  "Number_bigint x =
     (let m = round53 \<bar>x\<bar>
      in if 2 ^ 1024 \<le> m then (if x < 0 then JNegInfinity else JInfinity)
         else JNum (if x < 0 then - m else m))"

section \<open>Shared types: errors and header names\<close>

text \<open>
  \<^verbatim>\<open>class AgonError\<close>. The constructor stores \<^verbatim>\<open>body.error\<close>, the status code and
  \<^verbatim>\<open>body.details ?? {}\<close>, so \<open>details\<close> is never \<^verbatim>\<open>null\<close> or \<^verbatim>\<open>undefined\<close>. The
  message goes through \<^verbatim>\<open>super(body.message)\<close>: the \<^verbatim>\<open>Error\<close> constructor stores
  \<^verbatim>\<open>String(message)\<close>, and leaves the empty message of the prototype when it is given
  \<^verbatim>\<open>undefined\<close>.
\<close>

record agon_error =
  statusCode :: int
  code :: jsval
  message :: string
  details :: jsval

definition new_AgonError :: "int \<Rightarrow> jsval \<Rightarrow> jsval \<Rightarrow> jsval \<Rightarrow> agon_error" where
  "new_AgonError st err msg det =
     \<lparr>statusCode = st, code = err,
      message = (if msg = JUndefined then [] else js_String msg),
      details = coalesce det (JObj [])\<rparr>"

definition isSpendingLimitExceeded :: "agon_error \<Rightarrow> bool" where
  "isSpendingLimitExceeded e = (code e = JStr ''spending_limit_exceeded'')"

definition isOverrideAvailable :: "agon_error \<Rightarrow> bool" where
  "isOverrideAvailable e =
     (code e = JStr ''spending_limit_exceeded'' \<and>
      get_prop (details e) ''override_available'' = Some (JBool True))"

definition getOverrideSignMessage :: "agon_error \<Rightarrow> jsval" where
  "getOverrideSignMessage e =
     (if \<not> isOverrideAvailable e then JNull
      else case get_prop (details e) ''sign_message'' of
             None \<Rightarrow> JNull
           | Some v \<Rightarrow> coalesce v JNull)"

definition toJSON :: "agon_error \<Rightarrow> jsval" where
  "toJSON e =
     JObj [(''error'', code e), (''message'', JStr (message e)),
           (''details'', if object_keys_length (details e) > 0 then details e else JUndefined)]"

text \<open>What a \<^verbatim>\<open>throw\<close> carries: an \<^verbatim>\<open>AgonError\<close>, or anything else (a TypeError, a
  network failure, an exception of user code).\<close>

datatype thrown = AgonError agon_error | OtherError string

definition CONSUMER_KEY :: string where "CONSUMER_KEY = ''X-AGON-KEY''"
definition CONSUMER_TOKEN :: string where "CONSUMER_TOKEN = ''X-AGON-TOKEN''"
definition PAYMENT_REQUIRED :: string where "PAYMENT_REQUIRED = ''PAYMENT-REQUIRED''"

section \<open>Merchant side: the framework-agnostic core\<close>

text \<open>A header record as the core receives it: \<^verbatim>\<open>Record<string, string | string[] | undefined>\<close>.
  A key that is absent and a key bound to \<^verbatim>\<open>undefined\<close> read the same.\<close>

datatype hval = HStr string | HArr "string list"

type_synonym header_obj = "string \<rightharpoonup> hval"

text \<open>\<^verbatim>\<open>AgonPlatformConfig\<close>, without its pricing (price calculation is taken by its
  outcome, below) and its timeout (a matter of the HTTP client).\<close>

record platform_config =
  agonUrl :: string
  platformKey :: string
  description :: "string option"
  mimeType :: "string option"

definition extractConsumerToken :: "header_obj \<Rightarrow> jsval" where
  "extractConsumerToken hs =
     (let token = (case hs (toLowerCase CONSUMER_TOKEN) of
                     Some v \<Rightarrow> Some v
                   | None \<Rightarrow> hs CONSUMER_TOKEN)
      in case token of
           None \<Rightarrow> JNull
         | Some (HStr s) \<Rightarrow> if s = [] then JNull else JStr s
         | Some (HArr xs) \<Rightarrow> (case xs of [] \<Rightarrow> JUndefined | x # _ \<Rightarrow> JStr x))"

text \<open>\<^verbatim>\<open>!v\<close> for a header value, and \<^verbatim>\<open>Array.isArray(v) ? v[0] : v\<close>.\<close>

fun hval_falsy :: "hval option \<Rightarrow> bool" where
  "hval_falsy None = True"
| "hval_falsy (Some (HStr s)) = (s = [])"
| "hval_falsy (Some (HArr xs)) = False"

fun hval_first :: "hval \<Rightarrow> string option" where
  "hval_first (HStr s) = Some s"
| "hval_first (HArr []) = None"
| "hval_first (HArr (x # xs)) = Some x"

definition extractOverride :: "header_obj \<Rightarrow> (string \<times> string) option" where
  "extractOverride hs =
     (let sig = (case hs ''x-agon-override-sig'' of Some v \<Rightarrow> Some v
                 | None \<Rightarrow> hs ''X-AGON-OVERRIDE-SIG'');
          msg = (case hs ''x-agon-override-msg'' of Some v \<Rightarrow> Some v
                 | None \<Rightarrow> hs ''X-AGON-OVERRIDE-MSG'')
      in if hval_falsy sig \<or> hval_falsy msg then None
         else case (sig, msg) of
                (Some sv, Some mv) \<Rightarrow>
                  (case (hval_first sv, hval_first mv) of
                     (Some sigStr, Some msgStr) \<Rightarrow>
                       if sigStr = [] \<or> msgStr = [] then None else Some (sigStr, msgStr)
                   | _ \<Rightarrow> None)
              | _ \<Rightarrow> None)"

text \<open>\<^verbatim>\<open>buildPaymentRequiredResponse\<close>: the status and the body object, before
  \<^verbatim>\<open>Response.json\<close> serialises it (serialisation drops the properties that are
  \<^verbatim>\<open>undefined\<close>).\<close>

record response =
  status :: int
  body :: jsval

definition opt_str :: "string option \<Rightarrow> jsval" where
  "opt_str s = (case s of None \<Rightarrow> JUndefined | Some t \<Rightarrow> JStr t)"

definition payment_info :: "platform_config \<Rightarrow> int \<Rightarrow> jsval" where
  "payment_info cfg price =
     JObj [(''price'', Number_bigint price),
           (''currency'', JStr ''USDC''),
           (''description'', coalesce (opt_str (description cfg)) (JStr ''Protected resource'')),
           (''mime_type'', opt_str (mimeType cfg)),
           (''instructions'', JStr ''Include your Agon auth token as the X-AGON-TOKEN header (create via POST /account/create-token)''),
           (''register_url'', JStr (agonUrl cfg @ ''/account/register''))]"

definition payment_required_fields :: "platform_config \<Rightarrow> int \<Rightarrow> (string \<times> jsval) list" where
  "payment_required_fields cfg price =
     [(''error'', JStr ''payment_required''),
      (''message'', JStr ''This resource requires payment via Agon''),
      (''payment_info'', payment_info cfg price)]"

definition buildPaymentRequiredResponse :: "platform_config \<Rightarrow> int \<Rightarrow> response" where
  "buildPaymentRequiredResponse cfg price =
     \<lparr>status = 402, body = JObj (payment_required_fields cfg price)\<rparr>"

subsection \<open>The backend and the protected handler, as the interceptor sees them\<close>

text \<open>
  Every effect of the interceptor is recorded in a trace, oldest first: a POST of the
  core's HTTP client to the backend, or a run of the protected handler. The world
  answers each effect from the trace so far and the arguments; this covers any
  deterministic backend and handler. Price calculation (\<^verbatim>\<open>calculatePrice\<close>: a pricing
  function supplied by the merchant, or \<^verbatim>\<open>parsePrice\<close> over floating point) is taken
  by its outcome, and \<^verbatim>\<open>Date.now()\<close> and \<^verbatim>\<open>Math.random()\<close> by the strings they render to.
\<close>

text \<open>An inbound request of the Next.js wrapper: its URL and the entries of
  \<^verbatim>\<open>req.headers\<close>, in the order \<^verbatim>\<open>forEach\<close> visits them.\<close>

record request =
  req_url :: string
  req_headers :: "(string \<times> string) list"

text \<open>\<open>Post path body\<close> is a call \<^verbatim>\<open>this.client.post(path, body)\<close> of the core.\<close>

datatype event = Post string jsval | Handler

record 'req world =
  w_price :: "'req \<Rightarrow> thrown + int"
  w_now :: string
  w_random :: string
  w_post :: "event list \<Rightarrow> string \<Rightarrow> jsval \<Rightarrow> thrown + jsval"
  w_handler :: "event list \<Rightarrow> 'req \<Rightarrow> thrown + response"

definition calculatePrice :: "'req world \<Rightarrow> 'req \<Rightarrow> thrown + int" where
  "calculatePrice w req = w_price w req"

definition generateRequestId :: "'req world \<Rightarrow> string" where
  "generateRequestId w = ''req_'' @ w_now w @ ''_'' @ w_random w"

definition client_post :: "'req world \<Rightarrow> event list \<Rightarrow> string \<Rightarrow> jsval \<Rightarrow> (thrown + jsval) \<times> event list" where
  "client_post w tr path b = (w_post w tr path b, tr @ [Post path b])"

definition authorize_body :: "jsval \<Rightarrow> string \<Rightarrow> int \<Rightarrow> (string \<times> string) option \<Rightarrow> jsval" where
  "authorize_body consumerToken requestId amount override =
     (let b = [(''consumer_token'', consumerToken),
               (''request_id'', JStr requestId),
               (''amount'', Number_bigint amount)]
      in case override of
           None \<Rightarrow> JObj b
         | Some (sg, msg) \<Rightarrow>
             JObj (b @ [(''override'', JObj [(''signature'', JStr sg), (''message'', JStr msg)])]))"

definition authorize ::
  "'req world \<Rightarrow> event list \<Rightarrow> jsval \<Rightarrow> string \<Rightarrow> int \<Rightarrow> (string \<times> string) option
     \<Rightarrow> (thrown + jsval) \<times> event list" where
  "authorize w tr consumerToken requestId amount override =
     client_post w tr ''/authorize'' (authorize_body consumerToken requestId amount override)"

definition consume :: "'req world \<Rightarrow> event list \<Rightarrow> jsval \<Rightarrow> (thrown + jsval) \<times> event list" where
  "consume w tr reservationId = client_post w tr ''/consume'' (JObj [(''reservation_id'', reservationId)])"

definition release :: "'req world \<Rightarrow> event list \<Rightarrow> jsval \<Rightarrow> (thrown + jsval) \<times> event list" where
  "release w tr reservationId = client_post w tr ''/release'' (JObj [(''reservation_id'', reservationId)])"

subsection \<open>\<^verbatim>\<open>withAgon\<close>: the Next.js route wrapper\<close>

text \<open>\<^verbatim>\<open>req.headers.forEach((value, key) => { headerObj[key] = value; })\<close>\<close>

definition headerObj_of :: "(string \<times> string) list \<Rightarrow> header_obj" where
  "headerObj_of hs = foldl (\<lambda>obj (k, v). obj(k \<mapsto> HStr v)) Map.empty hs"

definition internal_error :: "string \<Rightarrow> jsval" where
  "internal_error msg = JObj [(''error'', JStr ''internal_error''), (''message'', JStr msg)]"

text \<open>The result is the response of the wrapper, or what the returned promise rejects
  with; the trace is what the wrapper did to the backend and the handler. \<open>serve\<close> is
  the tail of the wrapper, from the call of the handler on (lines 88 to 117).\<close>

definition serve :: "request world \<Rightarrow> event list \<Rightarrow> request \<Rightarrow> jsval \<Rightarrow> (thrown + response) \<times> event list" where
  "serve w tr req reservationId =
     (case w_handler w tr req of
        Inl err \<Rightarrow>
          (let (r, tr') = release w (tr @ [Handler]) reservationId
           in (Inr \<lparr>status = 500, body = internal_error ''Handler error''\<rparr>, tr'))
      | Inr resp \<Rightarrow>
          if status resp < 400
          then (let (r, tr') = consume w (tr @ [Handler]) reservationId in (Inr resp, tr'))
          else (let (r, tr') = release w (tr @ [Handler]) reservationId in (Inr resp, tr')))"

definition withAgon :: "platform_config \<Rightarrow> request world \<Rightarrow> request \<Rightarrow> (thrown + response) \<times> event list" where
  "withAgon cfg w req =
     (let headerObj = headerObj_of (req_headers req);
          consumerToken = extractConsumerToken headerObj
      in case calculatePrice w req of
           Inl err \<Rightarrow>
             (Inr \<lparr>status = 500, body = internal_error ''Failed to calculate price''\<rparr>, [])
         | Inr price \<Rightarrow>
             if \<not> truthy consumerToken then (Inr (buildPaymentRequiredResponse cfg price), [])
             else
               (let requestId = generateRequestId w;
                    override = extractOverride headerObj
                in case authorize w [] consumerToken requestId price override of
                     (Inl (AgonError e), tr) \<Rightarrow>
                       (Inr \<lparr>status = statusCode e, body = toJSON e\<rparr>, tr)
                   | (Inl (OtherError x), tr) \<Rightarrow>
                       (Inr \<lparr>status = 502, body = internal_error ''Payment authorization failed''\<rparr>, tr)
                   | (Inr authResult, tr) \<Rightarrow>
                       (case get_prop authResult ''status'' of
                          None \<Rightarrow> (Inl (OtherError ''TypeError''), tr)
                        | Some st \<Rightarrow>
                            if st = JStr ''denied''
                            then (Inr \<lparr>status = 402,
                                       body = JObj (AList.update ''denial_reason''
                                                (read_prop authResult ''reason'')
                                                (payment_required_fields cfg price))\<rparr>, tr)
                            else serve w tr req (read_prop authResult ''reservation_id''))))"

subsection \<open>\<^verbatim>\<open>agonMiddleware\<close>: the Express middleware\<close>

text \<open>
  The middleware either writes a response itself and returns, or stores the reservation id
  on the request, wraps \<^verbatim>\<open>res.end\<close> and calls \<^verbatim>\<open>next()\<close>. The wrapper of \<^verbatim>\<open>res.end\<close>
  is \<open>res_end\<close>: it runs at every call of \<^verbatim>\<open>res.end\<close> by the code after the middleware,
  with the status code the response has at that call, and fires \<^verbatim>\<open>consume\<close> or
  \<^verbatim>\<open>release\<close> without awaiting it (\<^verbatim>\<open>.catch(() => {})\<close> drops a rejection). The wrapper
  keeps no record of having run: \<open>res_end_calls\<close> is the trace after the calls of
  \<^verbatim>\<open>res.end\<close> that a request sees, given by the status code at each call, in order.
\<close>

record express_request =
  ex_url :: string
  ex_headers :: "header_obj option"

datatype mw_outcome = Responded response | Next jsval



text \<open>\<^verbatim>\<open>req.headers ?? {}\<close>\<close>

definition express_headers :: "express_request \<Rightarrow> header_obj" where
  "express_headers req = (case ex_headers req of None \<Rightarrow> Map.empty | Some h \<Rightarrow> h)"

definition agonMiddleware ::
  "platform_config \<Rightarrow> express_request world \<Rightarrow> express_request
     \<Rightarrow> (thrown + mw_outcome) \<times> event list" where
  "agonMiddleware cfg w req =
     (let consumerToken = extractConsumerToken (express_headers req)
      in case calculatePrice w req of
           Inl err \<Rightarrow>
             (Inr (Responded \<lparr>status = 500, body = internal_error ''Failed to calculate price''\<rparr>), [])
         | Inr price \<Rightarrow>
             if \<not> truthy consumerToken
             then (Inr (Responded (buildPaymentRequiredResponse cfg price)), [])
             else
               (let requestId = generateRequestId w;
                    override = extractOverride (express_headers req)
                in case authorize w [] consumerToken requestId price override of
                     (Inl (AgonError e), tr) \<Rightarrow>
                       (Inr (Responded \<lparr>status = statusCode e, body = toJSON e\<rparr>), tr)
                   | (Inl (OtherError x), tr) \<Rightarrow>
                       (Inr (Responded \<lparr>status = 502,
                               body = internal_error ''Payment authorization failed''\<rparr>), tr)
                   | (Inr authResult, tr) \<Rightarrow>
                       (case get_prop authResult ''status'' of
                          None \<Rightarrow> (Inl (OtherError ''TypeError''), tr)
                        | Some st \<Rightarrow>
                            if st = JStr ''denied''
                            then (Inr (Responded \<lparr>status = 402,
                                       body = JObj (AList.update ''denial_reason''
                                                (read_prop authResult ''reason'')
                                                (payment_required_fields cfg price))\<rparr>), tr)
                            else (Inr (Next (read_prop authResult ''reservation_id'')), tr))))"

text \<open>The calls of a trace that went to one backend path, and whether the protected
  handler ran.\<close>

definition calls_to :: "string \<Rightarrow> event list \<Rightarrow> jsval list" where
  "calls_to path tr = [b. Post p b \<leftarrow> tr, p = path]"

definition handler_runs :: "event list \<Rightarrow> nat" where
  "handler_runs tr = length [e \<leftarrow> tr. e = Handler]"

definition reservation_body :: "jsval \<Rightarrow> jsval" where
  "reservation_body rid = JObj [(''reservation_id'', rid)]"

section \<open>Consumer side: \<^verbatim>\<open>AgonClient\<close>\<close>

subsection \<open>The \<^verbatim>\<open>Headers\<close> class\<close>

text \<open>
  A \<^verbatim>\<open>Headers\<close> object: its entries under lower-cased names. \<^verbatim>\<open>append\<close> joins the values
  of a repeated name, \<^verbatim>\<open>set\<close> replaces, \<^verbatim>\<open>get\<close> reads, all of them case-insensitively.
  A value is normalised first (leading and trailing tab, line feed, carriage return and
  space are removed), and \<^verbatim>\<open>set\<close> throws a TypeError when what is left is not a header
  value, that is, contains a NUL, a line feed or a carriage return. The names the client
  sets are constants and valid. The headers of the caller's own \<^verbatim>\<open>init\<close> are taken to be
  valid names and values (the constructor would throw a TypeError otherwise), and the
  order of iteration is left out.
\<close>

type_synonym headers = "(string \<times> string) list"

definition http_whitespace :: "char \<Rightarrow> bool" where
  "http_whitespace c = (c = CHR 0x09 \<or> c = CHR 0x0A \<or> c = CHR 0x0D \<or> c = CHR 0x20)"

definition normalize_value :: "string \<Rightarrow> string" where
  "normalize_value v = rev (dropWhile http_whitespace (rev (dropWhile http_whitespace v)))"

definition header_value :: "string \<Rightarrow> bool" where
  "header_value v = list_all (\<lambda>c. c \<noteq> CHR 0x00 \<and> c \<noteq> CHR 0x0A \<and> c \<noteq> CHR 0x0D) v"

definition Headers_append :: "headers \<Rightarrow> string \<Rightarrow> string \<Rightarrow> headers" where
  "Headers_append hs k v =
     (case map_of hs (toLowerCase k) of
        None \<Rightarrow> hs @ [(toLowerCase k, normalize_value v)]
      | Some old \<Rightarrow> AList.update (toLowerCase k) (old @ '', '' @ normalize_value v) hs)"

definition Headers_new :: "(string \<times> string) list option \<Rightarrow> headers" where
  "Headers_new init =
     foldl (\<lambda>hs (k, v). Headers_append hs k v) [] (case init of None \<Rightarrow> [] | Some l \<Rightarrow> l)"

definition Headers_set :: "headers \<Rightarrow> string \<Rightarrow> string \<Rightarrow> thrown + headers" where
  "Headers_set hs k v =
     (if header_value (normalize_value v)
      then Inr (AList.update (toLowerCase k) (normalize_value v) hs)
      else Inl (OtherError ''TypeError''))"

definition Headers_get :: "headers \<Rightarrow> string \<Rightarrow> string option" where
  "Headers_get hs k = map_of hs (toLowerCase k)"

subsection \<open>The client, and the world around it\<close>

text \<open>\<^verbatim>\<open>RequestInit | undefined\<close>: the three members the client reads.\<close>

record fetch_init =
  init_method :: "string option"
  init_headers :: "(string \<times> string) list option"
  init_body :: "string option"

definition headers_of_init :: "fetch_init option \<Rightarrow> (string \<times> string) list option" where
  "headers_of_init init = (case init of None \<Rightarrow> None | Some i \<Rightarrow> init_headers i)"

text \<open>A \<^verbatim>\<open>Response\<close>: its status, its headers, and what \<^verbatim>\<open>res.json()\<close> resolves to
  (\<open>None\<close> when it rejects).\<close>

record fetch_response =
  res_status :: int
  res_headers :: headers
  res_json :: "jsval option"

text \<open>
  The effects of the client, oldest first: a POST of its HTTP client to the backend, a
  dispatch to the merchant through \<^verbatim>\<open>fetchImpl\<close> (with the headers it carries), a call of
  the \<^verbatim>\<open>onLimitExceeded\<close> callback, and a signature over an override message. As on the
  merchant side, the world answers each effect from the trace so far and the arguments.
  \<^verbatim>\<open>btoa\<close> and the \<^verbatim>\<open>Response\<close> constructor belong to the platform and are parameters.
\<close>

datatype cevent =
    CPost string jsval
  | CDispatch string headers
  | CCallback jsval
  | CSign jsval

record client_world =
  c_post :: "cevent list \<Rightarrow> string \<Rightarrow> jsval \<Rightarrow> thrown + jsval"
  c_fetch :: "cevent list \<Rightarrow> string \<Rightarrow> fetch_init option \<Rightarrow> headers \<Rightarrow> thrown + fetch_response"
  c_now :: "cevent list \<Rightarrow> string"
  c_random :: "cevent list \<Rightarrow> string"
  c_toBase64 :: "string \<Rightarrow> string"
  c_new_Response :: "jsval \<Rightarrow> jsval \<Rightarrow> jsval \<Rightarrow> thrown + fetch_response"

text \<open>
  The members of an \<^verbatim>\<open>AgonClient\<close> that \<^verbatim>\<open>fetch\<close> reads. The callback and the custom
  signer are functions supplied by the caller; the wallet is taken by what
  \<^verbatim>\<open>bs58.encode(nacl.sign.detached(bytes, secretKey))\<close> yields for a message.
\<close>

record agon_client =
  apiKey :: "string option"
  onLimitExceeded :: "(cevent list \<Rightarrow> jsval \<Rightarrow> thrown + jsval) option"
  customSigner :: "(cevent list \<Rightarrow> jsval \<Rightarrow> thrown + jsval) option"
  wallet :: "(string \<Rightarrow> string) option"

definition requireAuth :: "agon_client \<Rightarrow> thrown option" where
  "requireAuth c =
     (if (case apiKey c of None \<Rightarrow> True | Some k \<Rightarrow> k = [])
      then Some (AgonError (new_AgonError 401 (JStr ''invalid_api_key'')
             (JStr ''API key not set. Call register() first or setApiKey() with an existing key.'')
             JUndefined))
      else None)"

subsection \<open>\<^verbatim>\<open>createAuthToken\<close>\<close>

text \<open>\<^verbatim>\<open>opts?: { ttl?: number; maxAmount?: number }\<close>; a member that is not given is
  \<^verbatim>\<open>undefined\<close>.\<close>

record token_opts =
  ttl :: jsval
  maxAmount :: jsval

definition create_token_body :: "token_opts option \<Rightarrow> jsval" where
  "create_token_body opts =
     JObj ([(''ttl'', coalesce (case opts of None \<Rightarrow> JUndefined | Some opt \<Rightarrow> ttl opt) (JNum 60))] @
           (case opts of
              None \<Rightarrow> []
            | Some opt \<Rightarrow>
                if maxAmount opt \<noteq> JUndefined then [(''max_amount'', maxAmount opt)] else []))"

definition createAuthToken ::
  "agon_client \<Rightarrow> client_world \<Rightarrow> cevent list \<Rightarrow> token_opts option
     \<Rightarrow> (thrown + jsval) \<times> cevent list" where
  "createAuthToken c w tr opts =
     (case requireAuth c of
        Some e \<Rightarrow> (Inl e, tr)
      | None \<Rightarrow>
          (c_post w tr ''/account/create-token'' (create_token_body opts),
           tr @ [CPost ''/account/create-token'' (create_token_body opts)]))"

definition no_opts :: "token_opts option" where
  "no_opts = Some \<lparr>ttl = JUndefined, maxAmount = JUndefined\<rparr>"

subsection \<open>\<^verbatim>\<open>signOverride\<close>\<close>

definition signOverride ::
  "agon_client \<Rightarrow> cevent list \<Rightarrow> jsval \<Rightarrow> (thrown + jsval) \<times> cevent list" where
  "signOverride c tr msg =
     (case customSigner c of
        Some signer \<Rightarrow> (signer tr msg, tr @ [CSign msg])
      | None \<Rightarrow>
          (case wallet c of
             Some sign \<Rightarrow>
               (Inr (JObj [(''signature'', JStr (sign (js_String msg))), (''message'', msg)]),
                tr @ [CSign msg])
           | None \<Rightarrow>
               (Inl (AgonError (new_AgonError 400 (JStr ''validation_error'')
                  (JStr ''No signer available. Provide a wallet Keypair or a custom signer.'')
                  JUndefined)), tr)))"

subsection \<open>\<^verbatim>\<open>handleSpendingLimitOverride\<close>\<close>

text \<open>The argument passed to the \<^verbatim>\<open>onLimitExceeded\<close> callback.\<close>

definition limit_details :: "agon_error \<Rightarrow> jsval" where
  "limit_details e =
     JObj [(''limitType'', read_prop (details e) ''limit_type''),
           (''requested'', read_prop (details e) ''requested''),
           (''limit'', read_prop (details e) ''limit''),
           (''dailySpent'', read_prop (details e) ''daily_spent''),
           (''merchantDomain'', read_prop (details e) ''merchant_domain''),
           (''signMessage'', coalesce (getOverrideSignMessage e) JUndefined)]"

text \<open>What the retry throws when its response is a 402 again (lines 565 to 577).\<close>

definition retry_402 :: "agon_error \<Rightarrow> fetch_response \<Rightarrow> thrown" where
  "retry_402 error retryRes =
     (case res_json retryRes of
        None \<Rightarrow> AgonError error
      | Some retryBody \<Rightarrow>
          (case get_prop retryBody ''error'' of
             None \<Rightarrow> OtherError ''TypeError''
           | Some er \<Rightarrow>
               AgonError (new_AgonError 402
                 (coalesce er (JStr ''spending_limit_exceeded''))
                 (coalesce (read_prop retryBody ''message'') (JStr ''Spending limit override failed''))
                 (read_prop retryBody ''details''))))"

text \<open>The headers of the retried request (lines 558 to 561): each \<^verbatim>\<open>set\<close> may throw, and
  so does reading \<^verbatim>\<open>override.signature\<close> when the signer returned \<^verbatim>\<open>null\<close>.\<close>

definition retry_headers :: "fetch_init option \<Rightarrow> jsval \<Rightarrow> jsval \<Rightarrow> thrown + headers" where
  "retry_headers init retryToken override =
     (case Headers_set (Headers_new (headers_of_init init)) CONSUMER_TOKEN (js_String retryToken) of
        Inl e \<Rightarrow> Inl e
      | Inr h1 \<Rightarrow>
          (case get_prop override ''signature'' of
             None \<Rightarrow> Inl (OtherError ''TypeError'')
           | Some sg \<Rightarrow>
               (case Headers_set h1 ''X-AGON-OVERRIDE-SIG'' (js_String sg) of
                  Inl e \<Rightarrow> Inl e
                | Inr h2 \<Rightarrow>
                    Headers_set h2 ''X-AGON-OVERRIDE-MSG''
                      (js_String (read_prop override ''message'')))))"

text \<open>The retry itself, once the callback has approved and there is a message to sign
  (lines 555 to 580): sign, issue a new token, dispatch once.\<close>

definition override_retry ::
  "agon_client \<Rightarrow> client_world \<Rightarrow> cevent list \<Rightarrow> string \<Rightarrow> fetch_init option \<Rightarrow> agon_error
     \<Rightarrow> jsval \<Rightarrow> (thrown + fetch_response) \<times> cevent list" where
  "override_retry c w tr url init error signMsg =
     (case signOverride c tr signMsg of
        (Inl e, tr1) \<Rightarrow> (Inl e, tr1)
      | (Inr override, tr1) \<Rightarrow>
          (case createAuthToken c w tr1 no_opts of
             (Inl e, tr2) \<Rightarrow> (Inl e, tr2)
           | (Inr tokenResult, tr2) \<Rightarrow>
               (case get_prop tokenResult ''token'' of
                  None \<Rightarrow> (Inl (OtherError ''TypeError''), tr2)
                | Some retryToken \<Rightarrow>
                    (case retry_headers init retryToken override of
                       Inl e \<Rightarrow> (Inl e, tr2)
                     | Inr retryHeaders \<Rightarrow>
                         (let tr3 = tr2 @ [CDispatch url retryHeaders]
                          in case c_fetch w tr2 url init retryHeaders of
                               Inl e \<Rightarrow> (Inl e, tr3)
                             | Inr retryRes \<Rightarrow>
                                 if res_status retryRes = 402
                                 then (Inl (retry_402 error retryRes), tr3)
                                 else (Inr retryRes, tr3))))))"

definition handleSpendingLimitOverride ::
  "agon_client \<Rightarrow> client_world \<Rightarrow> cevent list \<Rightarrow> string \<Rightarrow> fetch_init option \<Rightarrow> agon_error
     \<Rightarrow> (thrown + fetch_response) \<times> cevent list" where
  "handleSpendingLimitOverride c w tr url init error =
     (case onLimitExceeded c of
        None \<Rightarrow> (Inl (AgonError error), tr)
      | Some callback \<Rightarrow>
          (let signMsg = getOverrideSignMessage error;
               tr1 = tr @ [CCallback (limit_details error)]
           in case callback tr (limit_details error) of
                Inl e \<Rightarrow> (Inl e, tr1)
              | Inr decision \<Rightarrow>
                  if decision \<noteq> JStr ''approve'' then (Inl (AgonError error), tr1)
                  else if \<not> truthy signMsg then (Inl (AgonError error), tr1)
                  else override_retry c w tr1 url init error signMsg))"

subsection \<open>\<^verbatim>\<open>proxyX402\<close>\<close>

text \<open>\<^verbatim>\<open>extractHeaders(init)\<close>\<close>

definition extractHeaders :: "fetch_init option \<Rightarrow> jsval" where
  "extractHeaders init =
     (case headers_of_init init of
        None \<Rightarrow> JUndefined
      | Some hs \<Rightarrow> JObj (map (\<lambda>(k, v). (k, JStr v)) (Headers_new (Some hs))))"

definition proxy_request_fields ::
  "string \<Rightarrow> fetch_init option \<Rightarrow> string \<Rightarrow> string \<Rightarrow> (string \<times> jsval) list" where
  "proxy_request_fields url init paymentRequiredBase64 requestId =
     [(''url'', JStr url),
      (''method'', (case (case init of None \<Rightarrow> None | Some i \<Rightarrow> init_method i) of
                     None \<Rightarrow> JStr ''GET'' | Some m \<Rightarrow> JStr m)),
      (''headers'', extractHeaders init),
      (''body'', (case (case init of None \<Rightarrow> None | Some i \<Rightarrow> init_body i) of
                   None \<Rightarrow> JUndefined
                 | Some b \<Rightarrow> if b = [] then JUndefined else JStr b)),
      (''payment_required'', JStr paymentRequiredBase64),
      (''request_id'', JStr requestId)]"

text \<open>\<^verbatim>\<open>new Response(r.body, { status: r.status, headers: r.headers ?? {} })\<close>\<close>

definition proxy_response :: "client_world \<Rightarrow> jsval \<Rightarrow> thrown + fetch_response" where
  "proxy_response w r =
     (case get_prop r ''body'' of
        None \<Rightarrow> Inl (OtherError ''TypeError'')
      | Some b \<Rightarrow>
          c_new_Response w b (read_prop r ''status'') (coalesce (read_prop r ''headers'') (JObj [])))"

text \<open>The \<^verbatim>\<open>catch\<close> block of \<^verbatim>\<open>proxyX402\<close> (lines 606 to 651).\<close>

definition proxy_catch ::
  "agon_client \<Rightarrow> client_world \<Rightarrow> cevent list \<Rightarrow> (string \<times> jsval) list \<Rightarrow> thrown
     \<Rightarrow> (thrown + fetch_response) \<times> cevent list" where
  "proxy_catch c w tr reqFields err =
     (case err of
        OtherError x \<Rightarrow> (Inl err, tr)
      | AgonError e \<Rightarrow>
          if \<not> isSpendingLimitExceeded e \<or> \<not> isOverrideAvailable e then (Inl err, tr)
          else
            (case onLimitExceeded c of
               None \<Rightarrow> (Inl err, tr)
             | Some callback \<Rightarrow>
                 (let signMsg = getOverrideSignMessage e;
                      tr1 = tr @ [CCallback (limit_details e)]
                  in case callback tr (limit_details e) of
                       Inl e' \<Rightarrow> (Inl e', tr1)
                     | Inr decision \<Rightarrow>
                         if decision \<noteq> JStr ''approve'' then (Inl err, tr1)
                         else if \<not> truthy signMsg then (Inl err, tr1)
                         else
                           (case signOverride c tr1 signMsg of
                              (Inl e', tr2) \<Rightarrow> (Inl e', tr2)
                            | (Inr override, tr2) \<Rightarrow>
                                (case get_prop override ''signature'' of
                                   None \<Rightarrow> (Inl (OtherError ''TypeError''), tr2)
                                 | Some sg \<Rightarrow>
                                     (let b = JObj (reqFields @
                                            [(''override'',
                                              JObj [(''signature'', sg),
                                                    (''message'', read_prop override ''message'')])]);
                                          tr3 = tr2 @ [CPost ''/proxy'' b]
                                      in case c_post w tr2 ''/proxy'' b of
                                           Inl e' \<Rightarrow> (Inl e', tr3)
                                         | Inr retryResult \<Rightarrow> (proxy_response w retryResult, tr3)))))))"

definition proxyX402 ::
  "agon_client \<Rightarrow> client_world \<Rightarrow> cevent list \<Rightarrow> string \<Rightarrow> fetch_init option \<Rightarrow> string
     \<Rightarrow> (thrown + fetch_response) \<times> cevent list" where
  "proxyX402 c w tr url init paymentRequired =
     (let paymentRequiredBase64 = c_toBase64 w paymentRequired;
          requestId = ''proxy_'' @ c_now w tr @ ''_'' @ c_random w tr;
          reqFields = proxy_request_fields url init paymentRequiredBase64 requestId;
          tr1 = tr @ [CPost ''/proxy'' (JObj reqFields)]
      in case c_post w tr ''/proxy'' (JObj reqFields) of
           Inl err \<Rightarrow> proxy_catch c w tr1 reqFields err
         | Inr proxyResult \<Rightarrow>
             (case proxy_response w proxyResult of
                Inl err \<Rightarrow> proxy_catch c w tr1 reqFields err
              | Inr r \<Rightarrow> (Inr r, tr1)))"

subsection \<open>\<^verbatim>\<open>fetch\<close>\<close>

text \<open>The error built from the body of a 402 (lines 511 to 515); \<open>None\<close> is the TypeError
  of reading a property of \<^verbatim>\<open>null\<close>.\<close>

definition denial_error :: "jsval \<Rightarrow> agon_error option" where
  "denial_error errorBody =
     (case get_prop errorBody ''error'' of
        None \<Rightarrow> None
      | Some er \<Rightarrow>
          Some (new_AgonError 402
                  (coalesce er (JStr ''insufficient_balance''))
                  (coalesce (read_prop errorBody ''message'') (JStr ''Payment required''))
                  (coalesce (read_prop errorBody ''details'') (read_prop errorBody ''payment_info''))))"

definition fetch ::
  "agon_client \<Rightarrow> client_world \<Rightarrow> string \<Rightarrow> fetch_init option
     \<Rightarrow> (thrown + fetch_response) \<times> cevent list" where
  "fetch c w url init =
     (case requireAuth c of
        Some e \<Rightarrow> (Inl e, [])
      | None \<Rightarrow>
          (case createAuthToken c w [] no_opts of
             (Inl e, tr) \<Rightarrow> (Inl e, tr)
           | (Inr tokenResult, tr) \<Rightarrow>
               (case get_prop tokenResult ''token'' of
                  None \<Rightarrow> (Inl (OtherError ''TypeError''), tr)
                | Some token \<Rightarrow>
                    (case Headers_set (Headers_new (headers_of_init init))
                            CONSUMER_TOKEN (js_String token) of
                       Inl e \<Rightarrow> (Inl e, tr)
                     | Inr hdrs \<Rightarrow>
                         (let tr1 = tr @ [CDispatch url hdrs]
                          in case c_fetch w tr url init hdrs of
                               Inl e \<Rightarrow> (Inl e, tr1)
                             | Inr res \<Rightarrow>
                                 if res_status res \<noteq> 402 then (Inr res, tr1)
                                 else
                                   (case Headers_get (res_headers res) PAYMENT_REQUIRED of
                                      Some (p # ps) \<Rightarrow> proxyX402 c w tr1 url init (p # ps)
                                    | _ \<Rightarrow>
                                        (case res_json res of
                                           None \<Rightarrow>
                                             (Inl (AgonError (new_AgonError 402
                                                (JStr ''insufficient_balance'')
                                                (JStr ''Payment required but no details available'')
                                                JUndefined)), tr1)
                                         | Some errorBody \<Rightarrow>
                                             (case denial_error errorBody of
                                                None \<Rightarrow> (Inl (OtherError ''TypeError''), tr1)
                                              | Some error \<Rightarrow>
                                                  if isSpendingLimitExceeded error \<and>
                                                     isOverrideAvailable error
                                                  then handleSpendingLimitOverride
                                                         c w tr1 url init error
                                                  else (Inl (AgonError error), tr1)))))))))"

definition proxy_posts :: "cevent list \<Rightarrow> jsval list" where
  "proxy_posts tr = [b. CPost p b \<leftarrow> tr, p = ''/proxy'']"

definition dispatches :: "cevent list \<Rightarrow> headers list" where
  "dispatches tr = [h. CDispatch u h \<leftarrow> tr]"

definition token_post :: cevent where
  "token_post = CPost ''/account/create-token'' (create_token_body no_opts)"

section \<open>Example inputs\<close>

definition example_config :: platform_config where
  "example_config = \<lparr>agonUrl = ''https://api.agon.so'', platformKey = ''pk_test'',
     description = Some ''Premium weather data'', mimeType = None\<rparr>"

definition example_request :: request where
  "example_request = \<lparr>req_url = ''https://merchant.com/api'',
     req_headers = [(''accept'', ''*/*''), (''x-agon-token'', ''tok_1'')]\<rparr>"

definition approved_result :: jsval where
  "approved_result = JObj [(''reservation_id'', JStr ''res_1''), (''status'', JStr ''approved''),
     (''amount'', JNum 1000), (''expires_at'', JStr ''2026-01-01T00:00:00Z'')]"

definition denied_result :: jsval where
  "denied_result = JObj [(''reservation_id'', JNull), (''status'', JStr ''denied''),
     (''amount'', JNum 1000), (''expires_at'', JNull), (''reason'', JStr ''insufficient_balance'')]"

definition example_world ::
  "(thrown + int) \<Rightarrow> jsval \<Rightarrow> (thrown + response) \<Rightarrow> request world" where
  "example_world p a h = \<lparr>w_price = (\<lambda>r. p), w_now = ''lx2k9a'', w_random = ''4f9x0q1z'',
     w_post = (\<lambda>tr path b. if path = ''/authorize'' then Inr a
                 else Inl (OtherError ''backend down'')),
     w_handler = (\<lambda>tr r. h)\<rparr>"

definition anonymous_request :: request where
  "anonymous_request = \<lparr>req_url = ''https://merchant.com/api'', req_headers = [(''accept'', ''*/*'')]\<rparr>"

definition ok_response :: response where
  "ok_response = \<lparr>status = 200, body = JStr ''premium content''\<rparr>"


definition example_express_request :: express_request where
  "example_express_request = \<lparr>ex_url = ''/api/premium/data'',
     ex_headers = Some [''x-agon-token'' \<mapsto> HStr ''tok_1'']\<rparr>"

definition example_express_world :: "jsval \<Rightarrow> express_request world" where
  "example_express_world a = \<lparr>w_price = (\<lambda>r. Inr 1000), w_now = ''lx2k9a'', w_random = ''4f9x0q1z'',
     w_post = (\<lambda>tr path b. if path = ''/authorize'' then Inr a
                 else Inl (OtherError ''backend down'')),
     w_handler = (\<lambda>tr r. Inr ok_response)\<rparr>"

definition failing_price :: "thrown + int" where
  "failing_price = Inl (OtherError ''Invalid price string: bogus'')"

definition example_client :: agon_client where
  "example_client =
     \<lparr>apiKey = Some ''ak_test'',
      onLimitExceeded = Some (\<lambda>tr d. Inr (JStr ''approve'')),
      customSigner = Some (\<lambda>tr m. Inr (JObj [(''signature'', JStr ''sig_1''), (''message'', m)])),
      wallet = None\<rparr>"

definition limit_details_body :: jsval where
  "limit_details_body =
     JObj [(''limit_type'', JStr ''daily_spending_limit''), (''requested'', JNum 2000000),
           (''limit'', JNum 1000000), (''override_available'', JBool True),
           (''sign_message'', JStr ''agon:override:acct1:req1:2000000:merchant.com:1690000000'')]"

definition limit_denial :: jsval where
  "limit_denial =
     JObj [(''error'', JStr ''spending_limit_exceeded''), (''message'', JStr ''Daily limit exceeded''),
           (''details'', limit_details_body)]"

definition example_client_world ::
  "fetch_response \<Rightarrow> fetch_response \<Rightarrow> (thrown + jsval) \<Rightarrow> client_world" where
  "example_client_world first second proxy1 =
     \<lparr>c_post = (\<lambda>tr path b.
         if path = ''/account/create-token''
         then Inr (JObj [(''token'', JStr ''tok_1''), (''expires_in'', JNum 60)])
         else if proxy_posts tr = [] then proxy1
         else Inr (JObj [(''status'', JNum 200), (''body'', JStr ''paid content'')])),
      c_fetch = (\<lambda>tr url init hdrs. if dispatches tr = [] then Inr first else Inr second),
      c_now = (\<lambda>tr. ''1767225600000''),
      c_random = (\<lambda>tr. if proxy_posts tr = [] then ''k3v9x2ab'' else ''zzzzzzzz''),
      c_toBase64 = (\<lambda>s. ''eyJ4NDAyIjoxfQ==''),
      c_new_Response = (\<lambda>b st hs. Inr \<lparr>res_status = 200, res_headers = [], res_json = Some b\<rparr>)\<rparr>"

definition denial_402 :: "jsval option \<Rightarrow> fetch_response" where
  "denial_402 b = \<lparr>res_status = 402, res_headers = [(''content-type'', ''application/json'')],
                   res_json = b\<rparr>"

definition x402_challenge :: fetch_response where
  "x402_challenge = \<lparr>res_status = 402, res_headers = [(''payment-required'', ''{x402}'')],
                     res_json = None\<rparr>"

definition proxy_limit_error :: "thrown + jsval" where
  "proxy_limit_error =
     Inl (AgonError (new_AgonError 403 (JStr ''spending_limit_exceeded'')
            (JStr ''Daily limit exceeded'') limit_details_body))"

definition example_url :: string where
  "example_url = ''https://merchant.com/api''"

definition balance_denial :: jsval where
  "balance_denial =
     JObj [(''error'', JStr ''insufficient_balance''), (''message'', JStr ''Insufficient balance'')]"

section \<open>Properties of the merchant interceptor\<close>

subsection \<open>Traces of the interceptor\<close>

lemma toLowerCase_CONSUMER_TOKEN: "toLowerCase CONSUMER_TOKEN = ''x-agon-token''"
  unfolding CONSUMER_TOKEN_def by code_simp

lemma toLowerCase_lower_token: "toLowerCase ''x-agon-token'' = ''x-agon-token''"
  by code_simp

lemma calls_to_append: "calls_to p (xs @ ys) = calls_to p xs @ calls_to p ys"
  by (simp add: calls_to_def)

lemma calls_to_Post: "calls_to p [Post q b] = (if q = p then [b] else [])"
  by (simp add: calls_to_def)

lemma calls_to_Handler: "calls_to p [Handler] = []"
  by (simp add: calls_to_def)

lemma calls_to_Nil: "calls_to p [] = []"
  by (simp add: calls_to_def)

lemma handler_runs_append: "handler_runs (xs @ ys) = handler_runs xs + handler_runs ys"
  by (simp add: handler_runs_def)

lemma handler_runs_simps: "handler_runs [] = 0" "handler_runs [Handler] = 1" "handler_runs [Post q b] = 0"
  by (simp_all add: handler_runs_def)

lemma authorize_unfold:
  "authorize w tr t r a ov = (w_post w tr ''/authorize'' (authorize_body t r a ov),
      tr @ [Post ''/authorize'' (authorize_body t r a ov)])"
  by (simp add: authorize_def client_post_def)


lemma serve_throws:
  assumes "w_handler w tr req = Inl err"
  shows "serve w tr req rid =
     (Inr \<lparr>status = 500, body = internal_error ''Handler error''\<rparr>,
      tr @ [Handler, Post ''/release'' (reservation_body rid)])"
  using assms
  by (simp add: serve_def release_def client_post_def reservation_body_def split: prod.splits)

lemma withAgon_approved:
  assumes "calculatePrice w req = Inr price"
    and "truthy (extractConsumerToken (headerObj_of (req_headers req)))"
    and "authorize w [] (extractConsumerToken (headerObj_of (req_headers req)))
           (generateRequestId w) price (extractOverride (headerObj_of (req_headers req))) = (Inr auth, tr)"
    and "get_prop auth ''status'' = Some st" and "st \<noteq> JStr ''denied''"
  shows "withAgon cfg w req = serve w tr req (read_prop auth ''reservation_id'')"
  using assms by (simp add: withAgon_def Let_def)





lemma authorize_trace:
  assumes "authorize w tr0 t r a ov = (x, tr)"
  shows "calls_to ''/consume'' tr = calls_to ''/consume'' tr0"
    and "calls_to ''/release'' tr = calls_to ''/release'' tr0"
    and "handler_runs tr = handler_runs tr0"
    and "calls_to ''/authorize'' tr = calls_to ''/authorize'' tr0 @ [authorize_body t r a ov]"
  using assms
  by (auto simp: authorize_unfold calls_to_append calls_to_Post handler_runs_append handler_runs_simps)

lemma example_token: "extractConsumerToken (headerObj_of (req_headers example_request)) = JStr ''tok_1''"
  by (simp add: example_request_def headerObj_of_def extractConsumerToken_def toLowerCase_CONSUMER_TOKEN)

lemma example_express_token:
  "extractConsumerToken (express_headers example_express_request) = JStr ''tok_1''"
  by (simp add: example_express_request_def express_headers_def extractConsumerToken_def
        toLowerCase_CONSUMER_TOKEN)

subsection \<open>After an approved authorization\<close>


lemma withAgon_handler_throws:
  assumes "calculatePrice w req = Inr price"
    and "truthy (extractConsumerToken (headerObj_of (req_headers req)))"
    and "authorize w [] (extractConsumerToken (headerObj_of (req_headers req))) (generateRequestId w)
      price (extractOverride (headerObj_of (req_headers req))) = (Inr auth, tr)"
    and "get_prop auth ''status'' = Some (JStr ''approved'')"
    and "w_handler w tr req = Inl err"
  shows "withAgon cfg w req =
     (Inr \<lparr>status = 500, body = internal_error ''Handler error''\<rparr>,
      tr @ [Handler] @ [Post ''/release'' (reservation_body (read_prop auth ''reservation_id''))])"
proof -
  have "withAgon cfg w req = serve w tr req (read_prop auth ''reservation_id'')"
    using assms(1-4) by (rule withAgon_approved) simp
  then show ?thesis using assms(5) by (simp add: serve_throws)
qed




text \<open>
  Claim C2. When \<^verbatim>\<open>authorize\<close> returned an approved result and the protected handler
  throws, the Next.js wrapper calls \<^verbatim>\<open>release\<close> with the reservation id, once, and never
  \<^verbatim>\<open>consume\<close>; whatever the backend answers to that release (the world is arbitrary, so
  also when the call fails), the caller receives status 500 with the code
  \<^verbatim>\<open>internal_error\<close>, not a 402.
\<close>

theorem C2_handler_throws_release_and_500:
  assumes "calculatePrice w req = Inr price"
    and "truthy (extractConsumerToken (headerObj_of (req_headers req)))"
    and "authorize w [] (extractConsumerToken (headerObj_of (req_headers req))) (generateRequestId w)
           price (extractOverride (headerObj_of (req_headers req))) = (Inr auth, tr)"
    and "get_prop auth ''status'' = Some (JStr ''approved'')"
    and "w_handler w tr req = Inl err"
  shows "fst (withAgon cfg w req)
           = Inr \<lparr>status = 500,
                  body = JObj [(''error'', JStr ''internal_error''), (''message'', JStr ''Handler error'')]\<rparr> \<and>
         calls_to ''/release'' (snd (withAgon cfg w req))
           = [reservation_body (read_prop auth ''reservation_id'')] \<and>
         calls_to ''/consume'' (snd (withAgon cfg w req)) = [] \<and>
         handler_runs (snd (withAgon cfg w req)) = 1"
proof -
  have tr: "calls_to ''/consume'' tr = []" "calls_to ''/release'' tr = []" "handler_runs tr = 0"
    using authorize_trace [OF assms(3)] by (simp_all add: calls_to_Nil handler_runs_simps)
  have eq: "withAgon cfg w req =
     (Inr \<lparr>status = 500, body = internal_error ''Handler error''\<rparr>,
      tr @ [Handler] @ [Post ''/release'' (reservation_body (read_prop auth ''reservation_id''))])"
    using assms by (rule withAgon_handler_throws)
  show ?thesis
    by (simp add: eq tr internal_error_def calls_to_append calls_to_Post calls_to_Handler
          handler_runs_append handler_runs_simps del: append.simps)
qed

text \<open>A handler that throws, on a backend whose \<^verbatim>\<open>/release\<close> fails.\<close>

theorem C2_handler_throws_release_and_500_witness:
  "fst (withAgon example_config
          (example_world (Inr 1000) approved_result (Inl (OtherError ''boom''))) example_request)
     = Inr \<lparr>status = 500,
            body = JObj [(''error'', JStr ''internal_error''), (''message'', JStr ''Handler error'')]\<rparr> \<and>
   w_post (example_world (Inr 1000) approved_result (Inl (OtherError ''boom'')))
        (butlast (snd (withAgon example_config
          (example_world (Inr 1000) approved_result (Inl (OtherError ''boom''))) example_request)))
        ''/release'' (reservation_body (JStr ''res_1''))
     = Inl (OtherError ''backend down'') \<and>
   calls_to ''/release'' (snd (withAgon example_config
          (example_world (Inr 1000) approved_result (Inl (OtherError ''boom''))) example_request))
     = [reservation_body (JStr ''res_1'')]"
proof -
  let ?w = "example_world (Inr 1000) approved_result (Inl (OtherError ''boom''))"
  define tr where "tr = [Post ''/authorize'' (authorize_body (JStr ''tok_1'')
      (generateRequestId ?w) 1000
      (extractOverride (headerObj_of (req_headers example_request))))]"
  have h1: "calculatePrice ?w example_request = Inr 1000"
    by (simp add: calculatePrice_def example_world_def)
  have h2: "truthy (extractConsumerToken (headerObj_of (req_headers example_request)))"
    by (simp add: example_token)
  have h3: "authorize ?w [] (extractConsumerToken (headerObj_of (req_headers example_request)))
      (generateRequestId ?w) 1000
      (extractOverride (headerObj_of (req_headers example_request))) = (Inr approved_result, tr)"
    by (simp add: tr_def example_token example_world_def authorize_unfold)
  have h4: "get_prop approved_result ''status'' = Some (JStr ''approved'')"
    by (simp add: approved_result_def)
  have h5: "w_handler ?w tr example_request = Inl (OtherError ''boom'')"
    by (simp add: example_world_def)
  have rid: "read_prop approved_result ''reservation_id'' = JStr ''res_1''"
    by (simp add: read_prop_def approved_result_def)
  have post: "w_post ?w t ''/release'' b = Inl (OtherError ''backend down'')" for t b
    by (simp add: example_world_def)
  show ?thesis
    using C2_handler_throws_release_and_500 [OF h1 h2 h3 h4 h5, of example_config]
    by (simp add: rid post)
qed

subsection \<open>A request without a token\<close>

lemma headerObj_fold_absent:
  "k \<notin> fst ` set hs \<Longrightarrow> foldl (\<lambda>obj (k, v). obj(k \<mapsto> HStr v)) m hs k = m k"
  by (induction hs arbitrary: m) (auto split: prod.splits)

lemma headerObj_of_absent: "k \<notin> fst ` set hs \<Longrightarrow> headerObj_of hs k = None"
  by (simp add: headerObj_of_def headerObj_fold_absent)

lemma extractConsumerToken_absent:
  assumes "\<forall>(k, v) \<in> set hs. toLowerCase k \<noteq> toLowerCase CONSUMER_TOKEN"
  shows "extractConsumerToken (headerObj_of hs) = JNull"
proof -
  have a: "''x-agon-token'' \<notin> fst ` set hs"
    using assms toLowerCase_lower_token by (auto simp: toLowerCase_CONSUMER_TOKEN)
  have b: "CONSUMER_TOKEN \<notin> fst ` set hs"
    using assms by auto
  show ?thesis
    by (simp add: extractConsumerToken_def toLowerCase_CONSUMER_TOKEN
          headerObj_of_absent [OF a] headerObj_of_absent [OF b])
qed

lemma toLowerCase_upper_token: "toLowerCase ''X-AGON-TOKEN'' = ''x-agon-token''"
  by code_simp

text \<open>
  Claim C5, as stated, fails: price calculation runs before the token check, inside its own
  \<^verbatim>\<open>try\<close>, and a request without a token whose price cannot be computed is answered with
  status 500, not 402.
\<close>

theorem C5_no_token_counterexample:
  "req_headers anonymous_request = [(''accept'', ''*/*'')] \<and>
   extractConsumerToken (headerObj_of (req_headers anonymous_request)) = JNull \<and>
   withAgon example_config (example_world failing_price approved_result (Inr ok_response))
       anonymous_request
     = (Inr \<lparr>status = 500,
             body = JObj [(''error'', JStr ''internal_error''),
                          (''message'', JStr ''Failed to calculate price'')]\<rparr>, [])"
  by (simp add: anonymous_request_def headerObj_of_def extractConsumerToken_def
        toLowerCase_upper_token CONSUMER_TOKEN_def withAgon_def calculatePrice_def
        example_world_def failing_price_def internal_error_def)

text \<open>
  Claim C5, amended. For a request without the token header (under any casing) the Next.js
  wrapper makes no call to the backend and does not run the handler. When the price is
  computed it answers with status 402 and the body below: error \<^verbatim>\<open>payment_required\<close> and
  a \<^verbatim>\<open>payment_info\<close> object with the price as a Number, currency USDC, the description,
  the configured MIME type (\<^verbatim>\<open>undefined\<close> when none is configured) and the instructions
  to obtain a token. When price calculation throws it answers with status 500 and
  \<^verbatim>\<open>internal_error\<close>.
\<close>

theorem C5_no_token_payment_required:
  assumes "\<forall>(k, v) \<in> set (req_headers req). toLowerCase k \<noteq> toLowerCase CONSUMER_TOKEN"
  shows "snd (withAgon cfg w req) = [] \<and>
         (case calculatePrice w req of
            Inr price \<Rightarrow>
              fst (withAgon cfg w req) =
                Inr \<lparr>status = 402,
                     body = JObj
                       [(''error'', JStr ''payment_required''),
                        (''message'', JStr ''This resource requires payment via Agon''),
                        (''payment_info'', JObj
                           [(''price'', Number_bigint price),
                            (''currency'', JStr ''USDC''),
                            (''description'',
                               (case description cfg of None \<Rightarrow> JStr ''Protected resource''
                                | Some d \<Rightarrow> JStr d)),
                            (''mime_type'',
                               (case mimeType cfg of None \<Rightarrow> JUndefined | Some m \<Rightarrow> JStr m)),
                            (''instructions'', JStr ''Include your Agon auth token as the X-AGON-TOKEN header (create via POST /account/create-token)''),
                            (''register_url'', JStr (agonUrl cfg @ ''/account/register''))])]\<rparr>
          | Inl e \<Rightarrow>
              fst (withAgon cfg w req) =
                Inr \<lparr>status = 500,
                     body = JObj [(''error'', JStr ''internal_error''),
                                  (''message'', JStr ''Failed to calculate price'')]\<rparr>)"
  using extractConsumerToken_absent [OF assms]
  by (simp add: withAgon_def buildPaymentRequiredResponse_def payment_required_fields_def
        payment_info_def opt_str_def coalesce_def internal_error_def
        split: sum.splits option.splits)

text \<open>
  A request that carries only an \<^verbatim>\<open>accept\<close> header, with a price of 1000.
\<close>

theorem C5_no_token_payment_required_witness:
  "map fst (req_headers anonymous_request) = [''accept''] \<and>
   snd (withAgon example_config (example_world (Inr 1000) approved_result (Inr ok_response))
          anonymous_request) = [] \<and>
   fst (withAgon example_config (example_world (Inr 1000) approved_result (Inr ok_response))
          anonymous_request) =
     Inr \<lparr>status = 402,
          body = JObj
            [(''error'', JStr ''payment_required''),
             (''message'', JStr ''This resource requires payment via Agon''),
             (''payment_info'', JObj
                [(''price'', Number_bigint 1000),
                 (''currency'', JStr ''USDC''),
                 (''description'', JStr ''Premium weather data''),
                 (''mime_type'', JUndefined),
                 (''instructions'', JStr ''Include your Agon auth token as the X-AGON-TOKEN header (create via POST /account/create-token)''),
                 (''register_url'', JStr ''https://api.agon.so/account/register'')])]\<rparr>"
proof -
  have lc: "toLowerCase ''accept'' = ''accept''" by code_simp
  have h: "\<forall>(k, v) \<in> set (req_headers anonymous_request). toLowerCase k \<noteq> toLowerCase CONSUMER_TOKEN"
    by (simp add: anonymous_request_def toLowerCase_CONSUMER_TOKEN lc)
  show ?thesis
    using C5_no_token_payment_required [OF h, of example_config
        "example_world (Inr 1000) approved_result (Inr ok_response)"]
    by (simp add: calculatePrice_def example_world_def example_config_def anonymous_request_def)
qed

subsection \<open>A denied authorization\<close>

lemma payment_required_fields_denial:
  "AList.update ''denial_reason'' r (payment_required_fields cfg price)
     = payment_required_fields cfg price @ [(''denial_reason'', r)]"
  by (simp add: payment_required_fields_def)

lemma withAgon_denied:
  assumes "calculatePrice w req = Inr price"
    and "truthy (extractConsumerToken (headerObj_of (req_headers req)))"
    and "authorize w [] (extractConsumerToken (headerObj_of (req_headers req))) (generateRequestId w)
           price (extractOverride (headerObj_of (req_headers req))) = (Inr auth, tr)"
    and "get_prop auth ''status'' = Some (JStr ''denied'')"
  shows "withAgon cfg w req =
     (Inr \<lparr>status = 402,
            body = JObj (payment_required_fields cfg price @
                         [(''denial_reason'', read_prop auth ''reason'')])\<rparr>, tr)"
  using assms by (simp add: withAgon_def Let_def payment_required_fields_denial)

lemma agonMiddleware_denied:
  assumes "calculatePrice w req = Inr price"
    and "truthy (extractConsumerToken (express_headers req))"
    and "authorize w [] (extractConsumerToken (express_headers req)) (generateRequestId w) price
           (extractOverride (express_headers req)) = (Inr auth, tr)"
    and "get_prop auth ''status'' = Some (JStr ''denied'')"
  shows "agonMiddleware cfg w req =
     (Inr (Responded \<lparr>status = 402,
            body = JObj (payment_required_fields cfg price @
                         [(''denial_reason'', read_prop auth ''reason'')])\<rparr>), tr)"
  using assms by (simp add: agonMiddleware_def Let_def payment_required_fields_denial)

text \<open>
  Claim C6. When \<^verbatim>\<open>authorize\<close> returns a result whose status is \<^verbatim>\<open>denied\<close>, the
  interceptor answers with status 402 and the payment-required body extended by
  \<^verbatim>\<open>denial_reason\<close>, the reason of the backend; the protected handler does not run and
  neither \<^verbatim>\<open>consume\<close> nor \<^verbatim>\<open>release\<close> is called. For the Express middleware the
  outcome is a response written by the middleware itself: \<^verbatim>\<open>next()\<close> is not called.
\<close>

theorem C6_denied_402_handler_not_invoked:
  "(calculatePrice w req = Inr price \<and>
    truthy (extractConsumerToken (headerObj_of (req_headers req))) \<and>
    authorize w [] (extractConsumerToken (headerObj_of (req_headers req))) (generateRequestId w)
      price (extractOverride (headerObj_of (req_headers req))) = (Inr auth, tr) \<and>
    get_prop auth ''status'' = Some (JStr ''denied'')
    \<longrightarrow> fst (withAgon cfg w req) =
          Inr \<lparr>status = 402,
               body = JObj (payment_required_fields cfg price @
                            [(''denial_reason'', read_prop auth ''reason'')])\<rparr> \<and>
        body (buildPaymentRequiredResponse cfg price) = JObj (payment_required_fields cfg price) \<and>
        handler_runs (snd (withAgon cfg w req)) = 0 \<and>
        calls_to ''/consume'' (snd (withAgon cfg w req)) = [] \<and>
        calls_to ''/release'' (snd (withAgon cfg w req)) = [])
   \<and>
   (calculatePrice w' req' = Inr price' \<and>
    truthy (extractConsumerToken (express_headers req')) \<and>
    authorize w' [] (extractConsumerToken (express_headers req')) (generateRequestId w') price'
      (extractOverride (express_headers req')) = (Inr auth', tr') \<and>
    get_prop auth' ''status'' = Some (JStr ''denied'')
    \<longrightarrow> fst (agonMiddleware cfg w' req') =
          Inr (Responded \<lparr>status = 402,
               body = JObj (payment_required_fields cfg price' @
                            [(''denial_reason'', read_prop auth' ''reason'')])\<rparr>) \<and>
        handler_runs (snd (agonMiddleware cfg w' req')) = 0)"
proof (rule conjI; rule impI; elim conjE)
  assume a: "calculatePrice w req = Inr price"
    "truthy (extractConsumerToken (headerObj_of (req_headers req)))"
    "authorize w [] (extractConsumerToken (headerObj_of (req_headers req))) (generateRequestId w)
      price (extractOverride (headerObj_of (req_headers req))) = (Inr auth, tr)"
    "get_prop auth ''status'' = Some (JStr ''denied'')"
  have tr: "calls_to ''/consume'' tr = []" "calls_to ''/release'' tr = []" "handler_runs tr = 0"
    using authorize_trace [OF a(3)] by (simp_all add: calls_to_Nil handler_runs_simps)
  show "fst (withAgon cfg w req) =
          Inr \<lparr>status = 402,
               body = JObj (payment_required_fields cfg price @
                            [(''denial_reason'', read_prop auth ''reason'')])\<rparr> \<and>
        body (buildPaymentRequiredResponse cfg price) = JObj (payment_required_fields cfg price) \<and>
        handler_runs (snd (withAgon cfg w req)) = 0 \<and>
        calls_to ''/consume'' (snd (withAgon cfg w req)) = [] \<and>
        calls_to ''/release'' (snd (withAgon cfg w req)) = []"
    by (simp add: withAgon_denied [OF a] tr buildPaymentRequiredResponse_def)
next
  assume a: "calculatePrice w' req' = Inr price'"
    "truthy (extractConsumerToken (express_headers req'))"
    "authorize w' [] (extractConsumerToken (express_headers req')) (generateRequestId w') price'
      (extractOverride (express_headers req')) = (Inr auth', tr')"
    "get_prop auth' ''status'' = Some (JStr ''denied'')"
  have tr: "handler_runs tr' = 0"
    using authorize_trace [OF a(3)] by (simp_all add: handler_runs_simps)
  show "fst (agonMiddleware cfg w' req') =
          Inr (Responded \<lparr>status = 402,
               body = JObj (payment_required_fields cfg price' @
                            [(''denial_reason'', read_prop auth' ''reason'')])\<rparr>) \<and>
        handler_runs (snd (agonMiddleware cfg w' req')) = 0"
    by (simp add: agonMiddleware_denied [OF a] tr)
qed

text \<open>
  A denial for insufficient balance, on both adapters.
\<close>

theorem C6_denied_402_handler_not_invoked_witness:
  "fst (withAgon example_config (example_world (Inr 1000) denied_result (Inr ok_response)) example_request)
     = Inr \<lparr>status = 402,
            body = JObj (payment_required_fields example_config 1000 @
                         [(''denial_reason'', JStr ''insufficient_balance'')])\<rparr> \<and>
   handler_runs (snd (withAgon example_config
       (example_world (Inr 1000) denied_result (Inr ok_response)) example_request)) = 0 \<and>
   fst (agonMiddleware example_config (example_express_world denied_result) example_express_request)
     = Inr (Responded \<lparr>status = 402,
            body = JObj (payment_required_fields example_config 1000 @
                         [(''denial_reason'', JStr ''insufficient_balance'')])\<rparr>)"
proof -
  let ?w = "example_world (Inr 1000) denied_result (Inr ok_response)"
  let ?w' = "example_express_world denied_result"
  define tr where "tr = [Post ''/authorize'' (authorize_body (JStr ''tok_1'')
      (generateRequestId ?w) 1000
      (extractOverride (headerObj_of (req_headers example_request))))]"
  define tr' where "tr' = [Post ''/authorize'' (authorize_body (JStr ''tok_1'')
      (generateRequestId ?w') 1000
      (extractOverride (express_headers example_express_request)))]"
  have h: "calculatePrice ?w example_request = Inr 1000 \<and>
    truthy (extractConsumerToken (headerObj_of (req_headers example_request))) \<and>
    authorize ?w [] (extractConsumerToken (headerObj_of (req_headers example_request)))
      (generateRequestId ?w) 1000
      (extractOverride (headerObj_of (req_headers example_request))) = (Inr denied_result, tr) \<and>
    get_prop denied_result ''status'' = Some (JStr ''denied'')"
    by (simp add: tr_def example_token calculatePrice_def example_world_def authorize_unfold
          denied_result_def)
  have h': "calculatePrice ?w' example_express_request = Inr 1000 \<and>
    truthy (extractConsumerToken (express_headers example_express_request)) \<and>
    authorize ?w' [] (extractConsumerToken (express_headers example_express_request))
      (generateRequestId ?w') 1000
      (extractOverride (express_headers example_express_request)) = (Inr denied_result, tr') \<and>
    get_prop denied_result ''status'' = Some (JStr ''denied'')"
    by (simp add: tr'_def example_express_token calculatePrice_def example_express_world_def
          authorize_unfold denied_result_def)
  have reason: "read_prop denied_result ''reason'' = JStr ''insufficient_balance''"
    by (simp add: read_prop_def denied_result_def)
  note T = C6_denied_402_handler_not_invoked
      [where w = ?w and req = example_request and price = 1000
         and auth = denied_result and tr = tr and cfg = example_config
         and w' = ?w' and req' = example_express_request and price' = 1000
         and auth' = denied_result and tr' = tr']
  show ?thesis
    using T [THEN conjunct1, THEN mp, OF h] T [THEN conjunct2, THEN mp, OF h']
    by (simp add: reason)
qed

subsection \<open>Token extraction\<close>

text \<open>
  Claim C8, as stated, fails: a header record that holds the token under the mixed-case
  name \<^verbatim>\<open>X-Agon-Token\<close> is read as having no token.
\<close>

theorem C8_extract_token_counterexample:
  "toLowerCase ''X-Agon-Token'' = toLowerCase CONSUMER_TOKEN \<and>
   [''X-Agon-Token'' \<mapsto> HStr ''tok_1''] ''X-Agon-Token'' = Some (HStr ''tok_1'') \<and>
   extractConsumerToken [''X-Agon-Token'' \<mapsto> HStr ''tok_1''] = JNull"
proof -
  have "toLowerCase ''X-Agon-Token'' = ''x-agon-token''" by code_simp
  then show ?thesis
    by (simp add: toLowerCase_upper_token CONSUMER_TOKEN_def extractConsumerToken_def)
qed

text \<open>
  Claim C8, amended. \<^verbatim>\<open>extractConsumerToken\<close> reads exactly two spellings of the header
  name, the lower-case \<^verbatim>\<open>x-agon-token\<close> first and then \<^verbatim>\<open>X-AGON-TOKEN\<close>: it returns
  the non-empty string found under the first of the two that is present, it returns
  \<^verbatim>\<open>null\<close> when neither is present, and its result depends on no other key of the
  record.
\<close>

theorem C8_extract_token_two_spellings:
  "(hs ''x-agon-token'' = Some (HStr v) \<and> v \<noteq> [] \<longrightarrow> extractConsumerToken hs = JStr v) \<and>
   (hs ''x-agon-token'' = None \<and> hs ''X-AGON-TOKEN'' = Some (HStr v) \<and> v \<noteq> []
      \<longrightarrow> extractConsumerToken hs = JStr v) \<and>
   (hs ''x-agon-token'' = None \<and> hs ''X-AGON-TOKEN'' = None \<longrightarrow> extractConsumerToken hs = JNull) \<and>
   (hs ''x-agon-token'' = hs' ''x-agon-token'' \<and> hs ''X-AGON-TOKEN'' = hs' ''X-AGON-TOKEN''
      \<longrightarrow> extractConsumerToken hs = extractConsumerToken hs')"
  unfolding extractConsumerToken_def CONSUMER_TOKEN_def toLowerCase_upper_token
  by (auto split: option.splits)

text \<open>
  The two spellings that are read, and two records without them.
\<close>

theorem C8_extract_token_two_spellings_witness:
  "extractConsumerToken [''x-agon-token'' \<mapsto> HStr ''tok_1''] = JStr ''tok_1'' \<and>
   extractConsumerToken [''X-AGON-TOKEN'' \<mapsto> HStr ''tok_2''] = JStr ''tok_2'' \<and>
   extractConsumerToken [''accept'' \<mapsto> HStr ''*/*''] = JNull \<and>
   extractConsumerToken [''X-Agon-Token'' \<mapsto> HStr ''tok_3''] = JNull"
  using C8_extract_token_two_spellings
          [of "[''x-agon-token'' \<mapsto> HStr ''tok_1'']" "''tok_1''" Map.empty]
        C8_extract_token_two_spellings
          [of "[''X-AGON-TOKEN'' \<mapsto> HStr ''tok_2'']" "''tok_2''" Map.empty]
        C8_extract_token_two_spellings
          [of "[''accept'' \<mapsto> HStr ''*/*'']" "''tok_1''" Map.empty]
        C8_extract_token_two_spellings
          [of "[''X-Agon-Token'' \<mapsto> HStr ''tok_3'']" "''tok_3''" Map.empty]
  by simp

subsection \<open>Amounts on the wire\<close>

lemma bits_le: "n < 2 ^ k \<Longrightarrow> bits n \<le> k"
proof (induction k arbitrary: n)
  case 0
  then show ?case by (subst bits.simps) simp
next
  case (Suc k)
  show ?case
  proof (cases "n \<le> 0")
    case True
    then show ?thesis by (subst bits.simps) simp
  next
    case False
    from Suc.prems have "n div 2 < 2 ^ k" by simp
    then have "bits (n div 2) \<le> k" by (rule Suc.IH)
    with False show ?thesis by (subst bits.simps) simp
  qed
qed

lemma round53_small: "n < 2 ^ 53 \<Longrightarrow> round53 n = n"
  using bits_le [of n 53] by (simp add: round53_def)

lemma Number_bigint_exact: "\<bar>x\<bar> < 2 ^ 53 \<Longrightarrow> Number_bigint x = JNum x"
proof -
  assume a: "\<bar>x\<bar> < 2 ^ 53"
  then have r: "round53 \<bar>x\<bar> = \<bar>x\<bar>" by (rule round53_small)
  have "\<bar>x\<bar> < (2::int) ^ 1024" using a by (rule less_trans) simp
  then show ?thesis by (auto simp: Number_bigint_def r Let_def)
qed

text \<open>
  Claim C10, as stated, fails in its last part: \<open>2^53\<close> is larger than \<open>2^53 - 1\<close> and
  is transmitted exactly.
\<close>

theorem C10_larger_amount_exact_counterexample:
  "\<bar>2 ^ 53 :: int\<bar> > 2 ^ 53 - 1 \<and> Number_bigint (2 ^ 53) = JNum (2 ^ 53)"
  by code_simp

text \<open>
  Claim C10, amended. The body of \<^verbatim>\<open>authorize\<close> carries \<^verbatim>\<open>Number(amount)\<close> and the
  payment-required body carries \<^verbatim>\<open>Number(price)\<close>; for every amount of absolute value at
  most \<open>2^53 - 1\<close> that Number is the amount itself; beyond that only the amounts that
  are doubles are exact: \<open>2^53 + 1\<close> is sent as \<open>2^53\<close>, while \<open>2^53 + 2\<close> is sent
  unchanged.
\<close>

theorem C10_amounts_sent_as_Number:
  "get_prop (authorize_body tok rid amount ov) ''amount'' = Some (Number_bigint amount) \<and>
   get_prop (payment_info cfg price) ''price'' = Some (Number_bigint price) \<and>
   (\<bar>x\<bar> \<le> 2 ^ 53 - 1 \<longrightarrow> Number_bigint x = JNum x) \<and>
   Number_bigint (2 ^ 53 + 1) = JNum (2 ^ 53) \<and>
   Number_bigint (2 ^ 53 + 2) = JNum (2 ^ 53 + 2)"
proof (intro conjI impI)
  show "get_prop (authorize_body tok rid amount ov) ''amount'' = Some (Number_bigint amount)"
    by (simp add: authorize_body_def Let_def split: option.splits)
  show "get_prop (payment_info cfg price) ''price'' = Some (Number_bigint price)"
    by (simp add: payment_info_def)
  show "Number_bigint x = JNum x" if "\<bar>x\<bar> \<le> 2 ^ 53 - 1"
    using that by (intro Number_bigint_exact) simp
  show "Number_bigint (2 ^ 53 + 1) = JNum (2 ^ 53)" by code_simp
  show "Number_bigint (2 ^ 53 + 2) = JNum (2 ^ 53 + 2)" by code_simp
qed

text \<open>
  The largest negative amount within the bound.
\<close>

theorem C10_amounts_sent_as_Number_witness:
  "\<bar>- 9007199254740991 :: int\<bar> \<le> 2 ^ 53 - 1 \<and>
   Number_bigint (- 9007199254740991) = JNum (- 9007199254740991) \<and>
   get_prop (authorize_body (JStr ''tok_1'') ''req_1'' (- 9007199254740991) None) ''amount''
     = Some (JNum (- 9007199254740991))"
  using C10_amounts_sent_as_Number
          [of "JStr ''tok_1''" "''req_1''" "- 9007199254740991" None example_config 0
              "- 9007199254740991"]
  by simp

section \<open>Properties of the consumer orchestrator\<close>

subsection \<open>Token issuance\<close>

lemma proxy_posts_simps:
  "proxy_posts [] = []"
  "proxy_posts (xs @ ys) = proxy_posts xs @ proxy_posts ys"
  "proxy_posts (e # e' # xs) = proxy_posts [e] @ proxy_posts (e' # xs)"
  "proxy_posts [CPost p b] = (if p = ''/proxy'' then [b] else [])"
  "proxy_posts [CDispatch u h] = []"
  "proxy_posts [CCallback d] = []"
  "proxy_posts [CSign m] = []"
  by (simp_all add: proxy_posts_def)

lemma createAuthToken_cases:
  "createAuthToken c w tr opts = (r, tr') \<Longrightarrow>
     tr' = tr \<and> (\<exists>e. r = Inl e \<and> requireAuth c = Some e) \<or>
     tr' = tr @ [CPost ''/account/create-token'' (create_token_body opts)] \<and> requireAuth c = None
       \<and> r = c_post w tr ''/account/create-token'' (create_token_body opts)"
  by (auto simp: createAuthToken_def split: option.splits)

lemma signOverride_cases:
  "signOverride c tr msg = (r, tr') \<Longrightarrow>
     tr' = tr \<and> (\<exists>e. r = Inl e) \<or> tr' = tr @ [CSign msg]"
  by (auto simp: signOverride_def split: option.splits)

text \<open>
  Claim C7, as stated, fails: \<^verbatim>\<open>createAuthToken\<close> does not clamp. A requested time-to-live
  of 1000 seconds is sent as 1000.
\<close>

theorem C7_ttl_counterexample:
  "snd (createAuthToken example_client
          (example_client_world x402_challenge (denial_402 None) proxy_limit_error) []
          (Some \<lparr>ttl = JNum 1000, maxAmount = JUndefined\<rparr>))
     = [CPost ''/account/create-token'' (JObj [(''ttl'', JNum 1000)])] \<and>
   \<not> (1000 \<le> (300::int))"
  by (simp add: createAuthToken_def requireAuth_def example_client_def create_token_body_def
        coalesce_def)

text \<open>
  Claim C7, amended. The \<^verbatim>\<open>ttl\<close> sent to \<^verbatim>\<open>POST /account/create-token\<close> is \<^verbatim>\<open>opts.ttl\<close>
  as it was passed, and 60 when \<^verbatim>\<open>opts\<close> or \<^verbatim>\<open>opts.ttl\<close> is \<^verbatim>\<open>undefined\<close> (or \<^verbatim>\<open>null\<close>);
  with an API key set, the call is one POST with that body. Any bound on the value is
  left to the backend.
\<close>

theorem C7_ttl_forwarded_default_60:
  "get_prop (create_token_body opts) ''ttl''
     = Some (case opts of
               None \<Rightarrow> JNum 60
             | Some opt \<Rightarrow> if ttl opt = JUndefined \<or> ttl opt = JNull then JNum 60 else ttl opt) \<and>
   (requireAuth c = None \<longrightarrow>
      snd (createAuthToken c w tr opts)
        = tr @ [CPost ''/account/create-token'' (create_token_body opts)])"
  by (cases opts; cases "ttl (the opts)")
     (auto simp: create_token_body_def coalesce_def createAuthToken_def)

text \<open>
  The default and a passed value, on a client whose API key is set.
\<close>

theorem C7_ttl_forwarded_default_60_witness:
  "requireAuth example_client = None \<and>
   get_prop (create_token_body None) ''ttl'' = Some (JNum 60) \<and>
   get_prop (create_token_body (Some \<lparr>ttl = JNum 120, maxAmount = JNum 1000000\<rparr>)) ''ttl''
     = Some (JNum 120) \<and>
   snd (createAuthToken example_client
          (example_client_world x402_challenge (denial_402 None) proxy_limit_error) [] no_opts)
     = [token_post]"
  using C7_ttl_forwarded_default_60 [of None example_client
          "example_client_world x402_challenge (denial_402 None) proxy_limit_error" "[]"]
        C7_ttl_forwarded_default_60 [of "Some \<lparr>ttl = JNum 120, maxAmount = JNum 1000000\<rparr>"
          example_client
          "example_client_world x402_challenge (denial_402 None) proxy_limit_error" "[]"]
        C7_ttl_forwarded_default_60 [of no_opts example_client
          "example_client_world x402_challenge (denial_402 None) proxy_limit_error" "[]"]
  by (simp add: token_post_def requireAuth_def example_client_def)

subsection \<open>What a call of \<^verbatim>\<open>fetch\<close> can do\<close>

text \<open>Each part of \<^verbatim>\<open>fetch\<close> extends the trace it is given, and the shape of the extension is
  one of a few. The case lemmas below are what the claims about dispatches and passthrough
  posts rest on.\<close>

lemma dispatches_simps:
  "dispatches [] = []"
  "dispatches (xs @ ys) = dispatches xs @ dispatches ys"
  "dispatches (e # e' # xs) = dispatches [e] @ dispatches (e' # xs)"
  "dispatches [CPost p b] = []"
  "dispatches [CDispatch u h] = [h]"
  "dispatches [CCallback d] = []"
  "dispatches [CSign m] = []"
  by (simp_all add: dispatches_def)

lemma override_retry_cases:
  assumes "override_retry c w tr url init error signMsg = (r, T)"
  shows "(\<exists>e ext. r = Inl e \<and> T = tr @ ext \<and> dispatches ext = [] \<and> proxy_posts ext = []) \<or>
         (\<exists>hdrs. T = tr @ [CSign signMsg,
                       CPost ''/account/create-token'' (create_token_body no_opts),
                       CDispatch url hdrs] \<and>
            r = (case c_fetch w (butlast T) url init hdrs of
                   Inl e \<Rightarrow> Inl e
                 | Inr res \<Rightarrow> if res_status res = 402 then Inl (retry_402 error res) else Inr res))"
proof (cases "signOverride c tr signMsg")
  case (Pair so tr1)
  note so = this
  show ?thesis
  proof (cases so)
    case (Inl e)
    with so assms signOverride_cases [OF so] show ?thesis
      by (auto simp: override_retry_def dispatches_simps proxy_posts_simps)
  next
    case (Inr override)
    note ov = this
    with so signOverride_cases [OF so] have tr1: "tr1 = tr @ [CSign signMsg]" by auto
    show ?thesis
    proof (cases "createAuthToken c w tr1 no_opts")
      case (Pair ct tr2)
      note ct = this
      show ?thesis
      proof (cases ct)
        case (Inl e)
        with so ct ov assms createAuthToken_cases [OF ct] tr1 show ?thesis
          by (auto simp: override_retry_def dispatches_simps proxy_posts_simps)
      next
        case (Inr tokenResult)
        note tk = this
        with ct createAuthToken_cases [OF ct] tr1
        have tr2: "tr2 = tr @ [CSign signMsg, CPost ''/account/create-token'' (create_token_body no_opts)]"
          by auto
        have nd: "dispatches [CSign signMsg, CPost ''/account/create-token'' (create_token_body no_opts)] = []"
          "proxy_posts [CSign signMsg, CPost ''/account/create-token'' (create_token_body no_opts)] = []"
          by (simp_all add: dispatches_simps proxy_posts_simps)
        show ?thesis
        proof (cases "get_prop tokenResult ''token''")
          case None
          with so ct ov tk assms have "r = Inl (OtherError ''TypeError'')" "T = tr2"
            by (simp_all add: override_retry_def)
          with tr2 nd show ?thesis by blast
        next
          case (Some retryToken)
          note rt = this
          show ?thesis
          proof (cases "retry_headers init retryToken override")
            case (Inl e)
            with so ct ov tk rt assms have "r = Inl e" "T = tr2"
              by (simp_all add: override_retry_def)
            with tr2 nd show ?thesis by blast
          next
            case (Inr retryHeaders)
            from so ct ov tk rt Inr assms
            have T: "T = tr2 @ [CDispatch url retryHeaders]"
              by (auto simp: override_retry_def Let_def split: sum.splits if_splits)
            from so ct ov tk rt Inr assms
            have r: "r = (case c_fetch w tr2 url init retryHeaders of
                   Inl e \<Rightarrow> Inl e
                 | Inr res \<Rightarrow> if res_status res = 402 then Inl (retry_402 error res) else Inr res)"
              by (auto simp: override_retry_def Let_def split: sum.splits if_splits)
            have "butlast T = tr2" using T by simp
            with T r tr2 show ?thesis by (intro disjI2 exI [of _ retryHeaders]) simp
          qed
        qed
      qed
    qed
  qed
qed

lemma handleSpendingLimitOverride_cases:
  assumes "handleSpendingLimitOverride c w tr url init error = (r, T)"
  shows "(\<exists>e ext. r = Inl e \<and> T = tr @ ext \<and> dispatches ext = [] \<and> proxy_posts ext = []) \<or>
         (\<exists>hdrs. T = tr @ [CCallback (limit_details error),
                       CSign (getOverrideSignMessage error),
                       CPost ''/account/create-token'' (create_token_body no_opts),
                       CDispatch url hdrs] \<and>
            r = (case c_fetch w (butlast T) url init hdrs of
                   Inl e \<Rightarrow> Inl e
                 | Inr res \<Rightarrow> if res_status res = 402 then Inl (retry_402 error res) else Inr res))"
proof (cases "onLimitExceeded c")
  case None
  with assms have "r = Inl (AgonError error)" "T = tr @ []"
    by (simp_all add: handleSpendingLimitOverride_def)
  then show ?thesis by (intro disjI1 exI [of _ "[]"] exI [of _ "AgonError error"]) (simp add: dispatches_simps proxy_posts_simps)
next
  case (Some callback)
  note cb = this
  let ?tr1 = "tr @ [CCallback (limit_details error)]"
  have stop: ?thesis if "r = Inl e" "T = ?tr1" for e
    using that by (intro disjI1 exI [of _ "[CCallback (limit_details error)]"] exI [of _ e])
      (simp add: dispatches_simps proxy_posts_simps)
  show ?thesis
  proof (cases "callback tr (limit_details error)")
    case (Inl e)
    with cb assms have "r = Inl e" "T = ?tr1"
      by (simp_all add: handleSpendingLimitOverride_def Let_def)
    then show ?thesis by (rule stop)
  next
    case (Inr decision)
    note dec = this
    show ?thesis
    proof (cases "decision = JStr ''approve'' \<and> truthy (getOverrideSignMessage error)")
      case False
      with cb dec assms have "r = Inl (AgonError error)" "T = ?tr1"
        by (auto simp: handleSpendingLimitOverride_def Let_def split: if_splits)
      then show ?thesis by (rule stop)
    next
      case True
      with cb dec assms
      have "override_retry c w ?tr1 url init error (getOverrideSignMessage error) = (r, T)"
        by (simp add: handleSpendingLimitOverride_def Let_def)
      from override_retry_cases [OF this] show ?thesis
      proof
        assume "\<exists>e ext. r = Inl e \<and> T = ?tr1 @ ext \<and> dispatches ext = [] \<and> proxy_posts ext = []"
        then obtain e ext where "r = Inl e" "T = ?tr1 @ ext" "dispatches ext = []" "proxy_posts ext = []"
          by blast
        then show ?thesis
          by (intro disjI1 exI [of _ "CCallback (limit_details error) # ext"] exI [of _ e])
             (simp add: dispatches_def proxy_posts_def)
      next
        assume "\<exists>hdrs. T = ?tr1 @ [CSign (getOverrideSignMessage error),
                       CPost ''/account/create-token'' (create_token_body no_opts),
                       CDispatch url hdrs] \<and>
            r = (case c_fetch w (butlast T) url init hdrs of
                   Inl e \<Rightarrow> Inl e
                 | Inr res \<Rightarrow> if res_status res = 402 then Inl (retry_402 error res) else Inr res)"
        then show ?thesis by auto
      qed
    qed
  qed
qed

lemma handleSpendingLimitOverride_callback_first:
  assumes "onLimitExceeded c = Some callback"
  shows "\<exists>rest. snd (handleSpendingLimitOverride c w tr url init error)
           = tr @ CCallback (limit_details error) # rest"
proof -
  obtain r T where rT: "handleSpendingLimitOverride c w tr url init error = (r, T)"
    by (cases "handleSpendingLimitOverride c w tr url init error")
  let ?tr1 = "tr @ [CCallback (limit_details error)]"
  show ?thesis
  proof (cases "\<exists>decision. callback tr (limit_details error) = Inr decision \<and>
                  decision = JStr ''approve'' \<and> truthy (getOverrideSignMessage error)")
    case False
    with assms rT have "T = ?tr1"
      by (auto simp: handleSpendingLimitOverride_def Let_def split: sum.splits if_splits)
    with rT show ?thesis by simp
  next
    case True
    with assms rT
    have "override_retry c w ?tr1 url init error (getOverrideSignMessage error) = (r, T)"
      by (auto simp: handleSpendingLimitOverride_def Let_def)
    from override_retry_cases [OF this] obtain ext where "T = ?tr1 @ ext" by auto
    with rT show ?thesis by simp
  qed
qed

lemma proxy_catch_cases:
  assumes "proxy_catch c w tr flds err = (r, T)"
  shows "\<exists>ext. T = tr @ ext \<and> dispatches ext = [] \<and>
           (proxy_posts ext = [] \<or> (\<exists>ov. proxy_posts ext = [JObj (flds @ [(''override'', ov)])]))"
proof -
  have stop: ?thesis if "T = tr @ ext" "dispatches ext = []" "proxy_posts ext = []" for ext
    using that by blast
  show ?thesis
  proof (cases "\<exists>e callback decision. err = AgonError e \<and> isSpendingLimitExceeded e \<and>
      isOverrideAvailable e \<and> onLimitExceeded c = Some callback \<and>
      callback tr (limit_details e) = Inr decision \<and> decision = JStr ''approve'' \<and>
      truthy (getOverrideSignMessage e)")
    case False
    then have "T = tr \<or> (\<exists>e. T = tr @ [CCallback (limit_details e)])"
      using assms
      by (auto simp: proxy_catch_def Let_def split: thrown.splits option.splits sum.splits if_splits)
    then show ?thesis
    proof
      assume "T = tr"
      then show ?thesis by (intro stop [of "[]"]) (simp_all add: dispatches_simps proxy_posts_simps)
    next
      assume "\<exists>e. T = tr @ [CCallback (limit_details e)]"
      then obtain e where "T = tr @ [CCallback (limit_details e)]" ..
      then show ?thesis
        by (intro stop [of "[CCallback (limit_details e)]"])
           (simp_all add: dispatches_simps proxy_posts_simps)
    qed
  next
    case True
    then obtain e callback where e: "err = AgonError e" "isSpendingLimitExceeded e"
      "isOverrideAvailable e" "onLimitExceeded c = Some callback"
      "callback tr (limit_details e) = Inr (JStr ''approve'')" "truthy (getOverrideSignMessage e)"
      by blast
    let ?tr1 = "tr @ [CCallback (limit_details e)]"
    let ?msg = "getOverrideSignMessage e"
    obtain so tr2 where so: "signOverride c ?tr1 ?msg = (so, tr2)"
      by (cases "signOverride c ?tr1 ?msg")
    show ?thesis
    proof (cases "\<exists>override sg. so = Inr override \<and> get_prop override ''signature'' = Some sg")
      case False
      with e so assms have "T = tr2"
        by (auto simp: proxy_catch_def Let_def split: sum.splits option.splits)
      with signOverride_cases [OF so]
      have "T = tr @ [CCallback (limit_details e)] \<or> T = tr @ [CCallback (limit_details e), CSign ?msg]"
        by auto
      then show ?thesis
      proof
        assume "T = tr @ [CCallback (limit_details e)]"
        then show ?thesis
          by (intro stop [of "[CCallback (limit_details e)]"])
             (simp_all add: dispatches_simps proxy_posts_simps)
      next
        assume "T = tr @ [CCallback (limit_details e), CSign ?msg]"
        then show ?thesis
          by (intro stop [of "[CCallback (limit_details e), CSign ?msg]"])
             (simp_all add: dispatches_simps proxy_posts_simps)
      qed
    next
      case True
      then obtain override sg where ov: "so = Inr override" "get_prop override ''signature'' = Some sg"
        by blast
      with so signOverride_cases [OF so]
      have tr2: "tr2 = tr @ [CCallback (limit_details e), CSign ?msg]" by auto
      let ?ov = "JObj [(''signature'', sg), (''message'', read_prop override ''message'')]"
      let ?b = "JObj (flds @ [(''override'', ?ov)])"
      from e so ov assms have "T = tr2 @ [CPost ''/proxy'' ?b]"
        by (auto simp: proxy_catch_def Let_def split: sum.splits)
      with tr2 have T: "T = tr @ [CCallback (limit_details e), CSign ?msg, CPost ''/proxy'' ?b]"
        by simp
      show ?thesis
        by (rule exI [of _ "[CCallback (limit_details e), CSign ?msg, CPost ''/proxy'' ?b]"])
           (simp add: T dispatches_simps proxy_posts_simps)
    qed
  qed
qed

lemma proxyX402_cases:
  assumes "proxyX402 c w tr url init pr = (r, T)"
    and "flds = proxy_request_fields url init (c_toBase64 w pr)
                  (''proxy_'' @ c_now w tr @ ''_'' @ c_random w tr)"
  shows "\<exists>ext. T = tr @ ext \<and> dispatches ext = [] \<and>
           (proxy_posts ext = [JObj flds] \<or>
            (\<exists>ov. proxy_posts ext = [JObj flds, JObj (flds @ [(''override'', ov)])]))"
proof -
  let ?tr1 = "tr @ [CPost ''/proxy'' (JObj flds)]"
  have "T = ?tr1 \<or> (\<exists>err. proxy_catch c w ?tr1 flds err = (r, T))"
    using assms by (auto simp: proxyX402_def Let_def split: sum.splits)
  then show ?thesis
  proof
    assume "T = ?tr1"
    then show ?thesis
      by (intro exI [of _ "[CPost ''/proxy'' (JObj flds)]"])
         (simp add: dispatches_simps proxy_posts_simps)
  next
    assume "\<exists>err. proxy_catch c w ?tr1 flds err = (r, T)"
    then obtain err where "proxy_catch c w ?tr1 flds err = (r, T)" ..
    from proxy_catch_cases [OF this] obtain ext where
      ext: "T = ?tr1 @ ext" "dispatches ext = []"
        "proxy_posts ext = [] \<or> (\<exists>ov. proxy_posts ext = [JObj (flds @ [(''override'', ov)])])"
      by blast
    show ?thesis
      using ext
      by (intro exI [of _ "CPost ''/proxy'' (JObj flds) # ext"])
         (auto simp: dispatches_def proxy_posts_def)
  qed
qed

lemma fetch_cases:
  assumes "fetch c w url init = (r, T)"
  shows "((\<exists>e. r = Inl e) \<and> (T = [] \<or> T = [token_post])) \<or>
         (\<exists>hdrs. T = [token_post, CDispatch url hdrs] \<or>
                 (\<exists>pr. proxyX402 c w [token_post, CDispatch url hdrs] url init pr = (r, T)) \<or>
                 (\<exists>error. handleSpendingLimitOverride c w [token_post, CDispatch url hdrs] url init error
                            = (r, T)))"
proof (cases "requireAuth c")
  case (Some e)
  with assms show ?thesis by (auto simp: fetch_def)
next
  case None
  note auth = this
  obtain ct tr where ct: "createAuthToken c w [] no_opts = (ct, tr)"
    by (cases "createAuthToken c w [] no_opts")
  from createAuthToken_cases [OF ct] auth have tr: "tr = [token_post]"
    by (simp add: token_post_def)
  show ?thesis
  proof (cases "\<exists>tokenResult token hdrs. ct = Inr tokenResult \<and>
      get_prop tokenResult ''token'' = Some token \<and>
      Headers_set (Headers_new (headers_of_init init)) CONSUMER_TOKEN (js_String token) = Inr hdrs")
    case False
    with auth ct tr assms have "(\<exists>e. r = Inl e) \<and> T = [token_post]"
      by (auto simp: fetch_def split: sum.splits option.splits)
    then show ?thesis by blast
  next
    case True
    then obtain tokenResult token hdrs where tk: "ct = Inr tokenResult"
      "get_prop tokenResult ''token'' = Some token"
      "Headers_set (Headers_new (headers_of_init init)) CONSUMER_TOKEN (js_String token) = Inr hdrs"
      by blast
    let ?tr1 = "[token_post, CDispatch url hdrs]"
    from auth ct tr tk assms
    have "T = ?tr1 \<or>
          (\<exists>pr. proxyX402 c w ?tr1 url init pr = (r, T)) \<or>
          (\<exists>error. handleSpendingLimitOverride c w ?tr1 url init error = (r, T))"
      by (auto simp: fetch_def Let_def split: sum.splits option.splits list.splits if_splits)
    then show ?thesis by blast
  qed
qed

lemma fetch_proxy_posts:
  assumes "fetch c w url init = (r, T)"
  shows "proxy_posts T = [] \<or>
         (\<exists>pr flds. flds = proxy_request_fields url init (c_toBase64 w pr)
                       (''proxy_'' @ c_now w (take 2 T) @ ''_'' @ c_random w (take 2 T)) \<and>
            (proxy_posts T = [JObj flds] \<or>
             (\<exists>ov. proxy_posts T = [JObj flds, JObj (flds @ [(''override'', ov)])])))"
proof -
  have tp: "proxy_posts [token_post] = []" "\<And>h. proxy_posts [token_post, CDispatch url h] = []"
    by (simp_all add: token_post_def proxy_posts_def)
  from fetch_cases [OF assms] show ?thesis
  proof (elim disjE exE conjE)
    assume "T = []" then show ?thesis by (simp add: proxy_posts_simps)
  next
    assume "T = [token_post]" then show ?thesis by (simp add: tp)
  next
    fix hdrs assume "T = [token_post, CDispatch url hdrs]"
    then show ?thesis by (simp add: tp)
  next
    fix hdrs pr
    let ?tr1 = "[token_post, CDispatch url hdrs]"
    assume px: "proxyX402 c w ?tr1 url init pr = (r, T)"
    from proxyX402_cases [OF px refl] obtain ext where
      ext: "T = ?tr1 @ ext"
        "proxy_posts ext = [JObj (proxy_request_fields url init (c_toBase64 w pr)
                  (''proxy_'' @ c_now w ?tr1 @ ''_'' @ c_random w ?tr1))] \<or>
         (\<exists>ov. proxy_posts ext = [JObj (proxy_request_fields url init (c_toBase64 w pr)
                  (''proxy_'' @ c_now w ?tr1 @ ''_'' @ c_random w ?tr1)),
              JObj (proxy_request_fields url init (c_toBase64 w pr)
                  (''proxy_'' @ c_now w ?tr1 @ ''_'' @ c_random w ?tr1) @ [(''override'', ov)])])"
      by blast
    have tk: "take 2 T = ?tr1" using ext(1) by simp
    have pp: "proxy_posts T = proxy_posts ext"
      using ext(1) tp(2) [of hdrs] proxy_posts_simps(2) [of ?tr1 ext] by simp
    show ?thesis
      unfolding tk pp using ext(2) by blast
  next
    fix hdrs error
    let ?tr1 = "[token_post, CDispatch url hdrs]"
    assume "handleSpendingLimitOverride c w ?tr1 url init error = (r, T)"
    from handleSpendingLimitOverride_cases [OF this]
    have "proxy_posts T = []"
      using tp(2) [of hdrs]
      by (auto simp: proxy_posts_simps(2) proxy_posts_def token_post_def)
    then show ?thesis by simp
  qed
qed

subsection \<open>Denials of the first dispatch\<close>

text \<open>
  Claim C4 at a first answer with status 402, no \<^verbatim>\<open>PAYMENT-REQUIRED\<close> header and the JSON
  body \<^verbatim>\<open>null\<close>: this denial is not of the one recoverable class, yet it is not raised as
  an \<^verbatim>\<open>AgonError\<close>. Reading \<^verbatim>\<open>errorBody.error\<close> raises a TypeError, and that is what
  \<^verbatim>\<open>fetch\<close> throws.
\<close>

theorem C4_first_402_null_body_TypeError:
  "fetch example_client
     (example_client_world (denial_402 (Some JNull)) (denial_402 None) proxy_limit_error)
     example_url None
   = (Inl (OtherError ''TypeError''),
      [token_post, CDispatch example_url [(''x-agon-token'', ''tok_1'')]])"
  by code_simp

text \<open>
  For every other body the classification holds. After a first answer with status 402 and
  no \<^verbatim>\<open>PAYMENT-REQUIRED\<close> header, \<^verbatim>\<open>fetch\<close> continues as follows.
\<close>

lemma fetch_native_402:
  assumes "requireAuth c = None"
    and "c_post w [] ''/account/create-token'' (create_token_body no_opts) = Inr tokenResult"
    and "get_prop tokenResult ''token'' = Some token"
    and "Headers_set (Headers_new (headers_of_init init)) CONSUMER_TOKEN (js_String token) = Inr hdrs"
    and "c_fetch w [token_post] url init hdrs = Inr res"
    and "res_status res = 402"
    and "Headers_get (res_headers res) PAYMENT_REQUIRED = None \<or>
         Headers_get (res_headers res) PAYMENT_REQUIRED = Some []"
    and "tr1 = [token_post, CDispatch url hdrs]"
  shows "fetch c w url init =
     (case res_json res of
        None \<Rightarrow>
          (Inl (AgonError (new_AgonError 402 (JStr ''insufficient_balance'')
             (JStr ''Payment required but no details available'') JUndefined)), tr1)
      | Some errorBody \<Rightarrow>
          (case denial_error errorBody of
             None \<Rightarrow> (Inl (OtherError ''TypeError''), tr1)
           | Some error \<Rightarrow>
               if isSpendingLimitExceeded error \<and> isOverrideAvailable error
               then handleSpendingLimitOverride c w tr1 url init error
               else (Inl (AgonError error), tr1)))"
proof -
  have ct: "createAuthToken c w [] no_opts = (Inr tokenResult, [token_post])"
    using assms(1,2) by (simp add: createAuthToken_def token_post_def)
  show ?thesis
    using assms(1,3-8) by (auto simp: fetch_def ct Let_def split: option.splits list.splits)
qed

lemma denial_error_not_nullish:
  "\<not> nullish errorBody \<Longrightarrow>
   denial_error errorBody =
     Some (new_AgonError 402
             (coalesce (read_prop errorBody ''error'') (JStr ''insufficient_balance''))
             (coalesce (read_prop errorBody ''message'') (JStr ''Payment required''))
             (coalesce (read_prop errorBody ''details'') (read_prop errorBody ''payment_info'')))"
  by (cases errorBody) (auto simp: denial_error_def read_prop_def split: option.splits)

text \<open>
  An unreadable body is raised as an \<^verbatim>\<open>AgonError\<close>. A body that is any JSON value but
  \<^verbatim>\<open>null\<close> yields an error that is raised as it is, with nothing further attempted, unless
  its code is \<^verbatim>\<open>spending_limit_exceeded\<close>, its \<^verbatim>\<open>details.override_available\<close> is \<^verbatim>\<open>true\<close>
  and a callback is configured; then, and only then, the call continues with
  \<^verbatim>\<open>handleSpendingLimitOverride\<close>, whose first effect is the call of the callback.
\<close>

lemma fetch_structured_denial:
  assumes "requireAuth c = None"
    and "c_post w [] ''/account/create-token'' (create_token_body no_opts) = Inr tokenResult"
    and "get_prop tokenResult ''token'' = Some token"
    and "Headers_set (Headers_new (headers_of_init init)) CONSUMER_TOKEN (js_String token) = Inr hdrs"
    and "c_fetch w [token_post] url init hdrs = Inr res"
    and "res_status res = 402"
    and "Headers_get (res_headers res) PAYMENT_REQUIRED = None \<or>
         Headers_get (res_headers res) PAYMENT_REQUIRED = Some []"
    and "tr1 = [token_post, CDispatch url hdrs]"
  shows "(res_json res = None \<longrightarrow>
            fetch c w url init =
              (Inl (AgonError (new_AgonError 402 (JStr ''insufficient_balance'')
                 (JStr ''Payment required but no details available'') JUndefined)), tr1)) \<and>
         (\<forall>errorBody error.
            res_json res = Some errorBody \<and> \<not> nullish errorBody \<and>
            error = new_AgonError 402
                      (coalesce (read_prop errorBody ''error'') (JStr ''insufficient_balance''))
                      (coalesce (read_prop errorBody ''message'') (JStr ''Payment required''))
                      (coalesce (read_prop errorBody ''details'') (read_prop errorBody ''payment_info''))
            \<longrightarrow>
            (if code error = JStr ''spending_limit_exceeded'' \<and>
                get_prop (details error) ''override_available'' = Some (JBool True) \<and>
                onLimitExceeded c \<noteq> None
             then fetch c w url init = handleSpendingLimitOverride c w tr1 url init error \<and>
                  (\<exists>rest. snd (fetch c w url init) = tr1 @ CCallback (limit_details error) # rest)
             else fetch c w url init = (Inl (AgonError error), tr1)))"
proof (intro conjI impI allI)
  assume "res_json res = None"
  then show "fetch c w url init =
              (Inl (AgonError (new_AgonError 402 (JStr ''insufficient_balance'')
                 (JStr ''Payment required but no details available'') JUndefined)), tr1)"
    by (simp add: fetch_native_402 [OF assms])
next
  fix errorBody error
  assume a: "res_json res = Some errorBody \<and> \<not> nullish errorBody \<and>
            error = new_AgonError 402
                      (coalesce (read_prop errorBody ''error'') (JStr ''insufficient_balance''))
                      (coalesce (read_prop errorBody ''message'') (JStr ''Payment required''))
                      (coalesce (read_prop errorBody ''details'') (read_prop errorBody ''payment_info''))"
  then have de: "denial_error errorBody = Some error"
    by (simp add: denial_error_not_nullish)
  have f: "fetch c w url init =
      (if isSpendingLimitExceeded error \<and> isOverrideAvailable error
       then handleSpendingLimitOverride c w tr1 url init error
       else (Inl (AgonError error), tr1))"
    using a de by (simp add: fetch_native_402 [OF assms])
  show "if code error = JStr ''spending_limit_exceeded'' \<and>
           get_prop (details error) ''override_available'' = Some (JBool True) \<and>
           onLimitExceeded c \<noteq> None
        then fetch c w url init = handleSpendingLimitOverride c w tr1 url init error \<and>
             (\<exists>rest. snd (fetch c w url init) = tr1 @ CCallback (limit_details error) # rest)
        else fetch c w url init = (Inl (AgonError error), tr1)"
  proof (cases "code error = JStr ''spending_limit_exceeded'' \<and>
           get_prop (details error) ''override_available'' = Some (JBool True)")
    case False
    then show ?thesis
      by (auto simp: f isSpendingLimitExceeded_def isOverrideAvailable_def)
  next
    case True
    then have el: "isSpendingLimitExceeded error \<and> isOverrideAvailable error"
      by (simp add: isSpendingLimitExceeded_def isOverrideAvailable_def)
    show ?thesis
    proof (cases "onLimitExceeded c")
      case None
      then show ?thesis by (simp add: f el handleSpendingLimitOverride_def)
    next
      case (Some callback)
      from handleSpendingLimitOverride_callback_first [OF Some, of w tr1 url init error]
      show ?thesis using True Some by (simp add: f el)
    qed
  qed
qed

text \<open>
  The recovery itself: when the callback approves, the denial carries a message to sign,
  the signature, the new token and the headers of the retry are obtained, and the retried
  dispatch is answered with a status other than 402, that answer is the result of the
  call.
\<close>

lemma handleSpendingLimitOverride_recovers:
  assumes "onLimitExceeded c = Some callback"
    and "callback tr (limit_details error) = Inr (JStr ''approve'')"
    and "truthy (getOverrideSignMessage error)"
    and "signOverride c (tr @ [CCallback (limit_details error)]) (getOverrideSignMessage error)
           = (Inr override, tr2)"
    and "c_post w tr2 ''/account/create-token'' (create_token_body no_opts) = Inr tokenResult"
    and "requireAuth c = None"
    and "get_prop tokenResult ''token'' = Some retryToken"
    and "retry_headers init retryToken override = Inr retryHeaders"
    and "c_fetch w (tr2 @ [token_post]) url init retryHeaders = Inr retryRes"
    and "res_status retryRes \<noteq> 402"
  shows "handleSpendingLimitOverride c w tr url init error
           = (Inr retryRes, tr2 @ [token_post, CDispatch url retryHeaders])"
proof -
  have ct: "createAuthToken c w tr2 no_opts = (Inr tokenResult, tr2 @ [token_post])"
    using assms(5,6) by (simp add: createAuthToken_def token_post_def)
  have "override_retry c w (tr @ [CCallback (limit_details error)]) url init error
          (getOverrideSignMessage error)
        = (Inr retryRes, tr2 @ [token_post, CDispatch url retryHeaders])"
    using assms(4,7-10) by (simp add: override_retry_def ct)
  then show ?thesis
    using assms(1-3) by (simp add: handleSpendingLimitOverride_def)
qed

text \<open>The three outcomes on concrete answers: an insufficient-balance denial is raised; a
  spending-limit denial with an override available is raised when no callback is
  configured; with an approving callback it is retried with the signed override, and the
  answer to the retry is returned.\<close>

lemma example_balance_denial_raised:
  "fetch example_client
     (example_client_world (denial_402 (Some balance_denial)) (denial_402 None) proxy_limit_error)
     example_url None
   = (Inl (AgonError \<lparr>statusCode = 402, code = JStr ''insufficient_balance'',
                      message = ''Insufficient balance'', details = JObj []\<rparr>),
      [token_post, CDispatch example_url [(''x-agon-token'', ''tok_1'')]])"
  by code_simp

lemma example_no_callback_raised:
  "fetch (example_client\<lparr>onLimitExceeded := None\<rparr>)
     (example_client_world (denial_402 (Some limit_denial)) (denial_402 None) proxy_limit_error)
     example_url None
   = (Inl (AgonError \<lparr>statusCode = 402, code = JStr ''spending_limit_exceeded'',
                      message = ''Daily limit exceeded'', details = limit_details_body\<rparr>),
      [token_post, CDispatch example_url [(''x-agon-token'', ''tok_1'')]])"
  by code_simp

lemma example_override_recovers:
  "fetch example_client
     (example_client_world (denial_402 (Some limit_denial))
        \<lparr>res_status = 200, res_headers = [], res_json = Some (JStr ''premium content'')\<rparr>
        proxy_limit_error)
     example_url None
   = (Inr \<lparr>res_status = 200, res_headers = [], res_json = Some (JStr ''premium content'')\<rparr>,
      [token_post,
       CDispatch example_url [(''x-agon-token'', ''tok_1'')],
       CCallback (JObj [(''limitType'', JStr ''daily_spending_limit''), (''requested'', JNum 2000000),
                        (''limit'', JNum 1000000), (''dailySpent'', JUndefined),
                        (''merchantDomain'', JUndefined),
                        (''signMessage'', JStr ''agon:override:acct1:req1:2000000:merchant.com:1690000000'')]),
       CSign (JStr ''agon:override:acct1:req1:2000000:merchant.com:1690000000''),
       token_post,
       CDispatch example_url
         [(''x-agon-token'', ''tok_1''), (''x-agon-override-sig'', ''sig_1''),
          (''x-agon-override-msg'', ''agon:override:acct1:req1:2000000:merchant.com:1690000000'')]])"
  by code_simp

subsection \<open>The idempotency key of the passthrough\<close>

lemma proxy_request_id:
  "get_prop (JObj (proxy_request_fields url init p rid)) ''request_id'' = Some (JStr rid)"
  "get_prop (JObj (proxy_request_fields url init p rid @ [(''override'', ov)])) ''request_id''
     = Some (JStr rid)"
  by (simp_all add: proxy_request_fields_def)

text \<open>
  Claim C9. A call of \<^verbatim>\<open>fetch\<close> posts to \<^verbatim>\<open>/proxy\<close> at most twice, and every such post
  carries the same \<^verbatim>\<open>request_id\<close>: the one built from the clock and the random source as
  they were read once, on entry to the passthrough (after the token post and the first
  dispatch, the first two events of the trace).
\<close>

theorem C9_proxy_request_id_shared:
  assumes "fetch c w url init = (r, T)"
  shows "length (proxy_posts T) \<le> 2 \<and>
         (\<forall>b \<in> set (proxy_posts T).
            get_prop b ''request_id''
              = Some (JStr (''proxy_'' @ c_now w (take 2 T) @ ''_'' @ c_random w (take 2 T))))"
proof -
  let ?rid = "''proxy_'' @ c_now w (take 2 T) @ ''_'' @ c_random w (take 2 T)"
  from fetch_proxy_posts [OF assms] show ?thesis
  proof (elim disjE exE conjE)
    assume "proxy_posts T = []"
    then show ?thesis by simp
  next
    fix pr flds
    assume "flds = proxy_request_fields url init (c_toBase64 w pr) ?rid"
      and "proxy_posts T = [JObj flds]"
    then show ?thesis
      using proxy_request_id(1) [of url init "c_toBase64 w pr" ?rid]
      by (simp del: get_prop.simps)
  next
    fix pr flds ov
    assume "flds = proxy_request_fields url init (c_toBase64 w pr) ?rid"
      and "proxy_posts T = [JObj flds, JObj (flds @ [(''override'', ov)])]"
    then show ?thesis
      using proxy_request_id(1) [of url init "c_toBase64 w pr" ?rid]
        proxy_request_id(2) [of url init "c_toBase64 w pr" ?rid ov]
      by (simp del: get_prop.simps)
  qed
qed

lemma example_proxy_retry:
  "proxy_posts (snd (fetch example_client
     (example_client_world x402_challenge (denial_402 None) proxy_limit_error)
     example_url None))
   = [JObj (proxy_request_fields example_url None ''eyJ4NDAyIjoxfQ=='' ''proxy_1767225600000_k3v9x2ab''),
      JObj (proxy_request_fields example_url None ''eyJ4NDAyIjoxfQ=='' ''proxy_1767225600000_k3v9x2ab'' @
            [(''override'', JObj [(''signature'', JStr ''sig_1''),
               (''message'', JStr ''agon:override:acct1:req1:2000000:merchant.com:1690000000'')])])]"
  by code_simp

text \<open>
  A passthrough whose first post is denied for a spending limit and retried with an
  override, in a world whose random source would answer differently the second time.
\<close>

theorem C9_proxy_request_id_shared_witness:
  "map (\<lambda>b. get_prop b ''request_id'')
     (proxy_posts (snd (fetch example_client
       (example_client_world x402_challenge (denial_402 None) proxy_limit_error)
       example_url None)))
   = [Some (JStr ''proxy_1767225600000_k3v9x2ab''), Some (JStr ''proxy_1767225600000_k3v9x2ab'')]"
proof -
  let ?w = "example_client_world x402_challenge (denial_402 None) proxy_limit_error"
  let ?T = "snd (fetch example_client ?w example_url None)"
  have tk: "take 2 ?T = [token_post, CDispatch example_url [(''x-agon-token'', ''tok_1'')]]"
    by code_simp
  have pp: "proxy_posts [token_post, CDispatch example_url [(''x-agon-token'', ''tok_1'')]] = []"
    by (simp add: proxy_posts_def token_post_def)
  have id: "''proxy_'' @ c_now ?w (take 2 ?T) @ ''_'' @ c_random ?w (take 2 ?T)
              = ''proxy_1767225600000_k3v9x2ab''"
    unfolding tk by (simp add: example_client_world_def pp)
  have "\<forall>b \<in> set (proxy_posts ?T).
          get_prop b ''request_id''
            = Some (JStr (''proxy_'' @ c_now ?w (take 2 ?T) @ ''_'' @ c_random ?w (take 2 ?T)))"
    using C9_proxy_request_id_shared [of example_client ?w example_url None
        "fst (fetch example_client ?w example_url None)" ?T]
    by simp
  then have all: "\<forall>b \<in> set (proxy_posts ?T).
          get_prop b ''request_id'' = Some (JStr ''proxy_1767225600000_k3v9x2ab'')"
    by (simp only: id)
  show ?thesis
    using all unfolding example_proxy_retry by (simp del: get_prop.simps)
qed

subsection \<open>The override retry\<close>

text \<open>
  Claim C3 at a retry that is answered with status 402 and the JSON body \<^verbatim>\<open>null\<close>: the
  call ends there, but what it throws is the TypeError of reading \<^verbatim>\<open>retryBody.error\<close>,
  not an \<^verbatim>\<open>AgonError\<close>.
\<close>

theorem C3_retry_402_null_body_TypeError:
  "fetch example_client
     (example_client_world (denial_402 (Some limit_denial)) (denial_402 (Some JNull)) proxy_limit_error)
     example_url None
   = (Inl (OtherError ''TypeError''),
      [token_post,
       CDispatch example_url [(''x-agon-token'', ''tok_1'')],
       CCallback (JObj [(''limitType'', JStr ''daily_spending_limit''), (''requested'', JNum 2000000),
                        (''limit'', JNum 1000000), (''dailySpent'', JUndefined),
                        (''merchantDomain'', JUndefined),
                        (''signMessage'', JStr ''agon:override:acct1:req1:2000000:merchant.com:1690000000'')]),
       CSign (JStr ''agon:override:acct1:req1:2000000:merchant.com:1690000000''),
       token_post,
       CDispatch example_url
         [(''x-agon-token'', ''tok_1''), (''x-agon-override-sig'', ''sig_1''),
          (''x-agon-override-msg'', ''agon:override:acct1:req1:2000000:merchant.com:1690000000'')]])"
  by code_simp

lemma retry_402_AgonError:
  assumes "res_json retryRes = None \<or> (\<exists>b. res_json retryRes = Some b \<and> \<not> nullish b)"
  shows "\<exists>e. retry_402 error retryRes = AgonError e"
  using assms
proof
  assume "res_json retryRes = None"
  then show ?thesis by (simp add: retry_402_def)
next
  assume "\<exists>b. res_json retryRes = Some b \<and> \<not> nullish b"
  then obtain b where b: "res_json retryRes = Some b" "\<not> nullish b" by blast
  then have "get_prop b ''error'' \<noteq> None" by (cases b) (auto split: option.splits)
  with b show ?thesis by (auto simp: retry_402_def)
qed

text \<open>
  What holds of the retry in general: a call of \<^verbatim>\<open>fetch\<close> dispatches to the merchant at most
  twice, and when it dispatches a second time that dispatch is its last effect; a 402
  answer to it is thrown as \<open>retry_402\<close>, which is an \<^verbatim>\<open>AgonError\<close> for every body but
  \<^verbatim>\<open>null\<close>.
\<close>

lemma fetch_override_retry_terminal:
  assumes "fetch c w url init = (r, T)"
  shows "length (dispatches T) \<le> 2 \<and>
         (length (dispatches T) = 2 \<longrightarrow>
            (\<exists>hdrs error.
               T = butlast T @ [CDispatch url hdrs] \<and>
               r = (case c_fetch w (butlast T) url init hdrs of
                      Inl e \<Rightarrow> Inl e
                    | Inr res \<Rightarrow>
                        if res_status res = 402 then Inl (retry_402 error res) else Inr res)))"
proof -
  have tp: "dispatches [token_post] = []" "\<And>h. dispatches [token_post, CDispatch url h] = [h]"
    by (simp_all add: token_post_def dispatches_def)
  have one: ?thesis if "T = [token_post, CDispatch url h] @ ext" "dispatches ext = []" for h ext
  proof -
    have "dispatches T = dispatches [token_post, CDispatch url h] @ dispatches ext"
      unfolding that(1) by (rule dispatches_simps(2))
    then have "dispatches T = [h]" using that(2) tp(2) [of h] by simp
    then show ?thesis by simp
  qed
  from fetch_cases [OF assms] show ?thesis
  proof (elim disjE exE conjE)
    assume "T = []" then show ?thesis by (simp add: dispatches_simps)
  next
    assume "T = [token_post]" then show ?thesis by (simp add: tp)
  next
    fix hdrs assume "T = [token_post, CDispatch url hdrs]"
    then show ?thesis using one [of hdrs "[]"] by (simp add: dispatches_simps)
  next
    fix hdrs pr
    assume "proxyX402 c w [token_post, CDispatch url hdrs] url init pr = (r, T)"
    from proxyX402_cases [OF this refl] show ?thesis using one by blast
  next
    fix hdrs error
    let ?tr1 = "[token_post, CDispatch url hdrs]"
    assume "handleSpendingLimitOverride c w ?tr1 url init error = (r, T)"
    from handleSpendingLimitOverride_cases [OF this] show ?thesis
    proof (elim disjE exE conjE)
      fix e ext assume "T = ?tr1 @ ext" "dispatches ext = []"
      then show ?thesis by (rule one)
    next
      fix h
      let ?mid = "[CCallback (limit_details error), CSign (getOverrideSignMessage error),
                   CPost ''/account/create-token'' (create_token_body no_opts)]"
      assume T: "T = ?tr1 @ [CCallback (limit_details error), CSign (getOverrideSignMessage error),
                   CPost ''/account/create-token'' (create_token_body no_opts), CDispatch url h]"
        and r: "r = (case c_fetch w (butlast T) url init h of
                   Inl e \<Rightarrow> Inl e
                 | Inr res \<Rightarrow> if res_status res = 402 then Inl (retry_402 error res) else Inr res)"
      have d: "dispatches T = [hdrs, h]"
        unfolding T by (simp add: dispatches_def token_post_def)
      have bl: "T = butlast T @ [CDispatch url h]" unfolding T by simp
      from d bl r show ?thesis by auto
    qed
  qed
qed

end
